theory Spec2Isabelle
  imports Main "HOL-Library.Char_ord" "HOL-Library.List_Lexorder" "HOL-Library.Multiset"
begin

section \<open>Values, exceptions and descriptors\<close>

text \<open>
  Definition files and branch configurations are YAML documents. A loaded document is a
  Python value: \<open>None\<close>, a bool, an int, a string, a list or a dict. A dict is an
  association list in insertion order; its keys are strings. Floating point values do
  not occur in the model.
\<close>

datatype yaml =
    YNone
  | YBool bool
  | YInt int
  | YStr string
  | YList "yaml list"
  | YDict "(string \<times> yaml) list"

text \<open>
  Python exceptions that derive from \<open>Exception\<close>. The named constructors are the ones
  the modelled code raises or tells apart itself; \<open>External\<close> is an exception raised
  inside a collaborator (source-control client, CI-server client, template engine, mail).
\<close>

datatype exn =
    AttributeError
  | TypeError
  | ValueError
  | RuntimeError string
  | NotImplementedError
  | NotFoundError
  | External string

text \<open>Truthiness of a value, as \<open>if v:\<close> tests it.\<close>

fun py_truthy :: "yaml \<Rightarrow> bool" where
  "py_truthy YNone = False"
| "py_truthy (YBool b) = b"
| "py_truthy (YInt i) = (i \<noteq> 0)"
| "py_truthy (YStr s) = (s \<noteq> [])"
| "py_truthy (YList xs) = (xs \<noteq> [])"
| "py_truthy (YDict kvs) = (kvs \<noteq> [])"

text \<open>\<open>d.get(k, default)\<close>; on a value that is no dict the attribute lookup fails.\<close>

fun dict_get :: "yaml \<Rightarrow> string \<Rightarrow> yaml \<Rightarrow> exn + yaml" where
  "dict_get (YDict kvs) k dflt = Inr (case map_of kvs k of Some v \<Rightarrow> v | None \<Rightarrow> dflt)"
| "dict_get _ k dflt = Inl AttributeError"

text \<open>
  The main repository of a descriptor. Every construction site in \<open>enumerator.py\<close> builds
  it as the dict \<open>{'path': .., 'branch': .., 'hostname': ..}\<close>.
\<close>

record main_repo =
  path :: string
  branch :: string
  hostname :: string

definition main_repo_dict :: "main_repo \<Rightarrow> yaml" where
  "main_repo_dict r =
     YDict [(''path'', YStr (path r)), (''branch'', YStr (branch r)),
            (''hostname'', YStr (hostname r))]"

text \<open>
  Modelled from the spec: the configuration element of a CI server (the model classes are
  not among the sources). The code reads its \<open>name()\<close> only; the URL stands for the
  remainder of the element.
\<close>

record concourse_cfg =
  cfg_name :: string
  cfg_url :: string

text \<open>
  The attribute \<open>override_definitions\<close> of a descriptor holds a Python sequence: the
  enumerators give a list to a descriptor they wrap and the empty tuple \<open>()\<close> to an
  error descriptor. Both are iterated alike, and only a list has \<open>append\<close>.
\<close>

datatype 'a sequence = PyList "'a list" | PyTuple "'a list"

fun py_items :: "'a sequence \<Rightarrow> 'a list" where
  "py_items (PyList xs) = xs"
| "py_items (PyTuple xs) = xs"

text \<open>
  \<open>seq.append(x)\<close>: the list grows by one element at its end; a tuple has no such
  attribute.
\<close>

fun py_append :: "'a sequence \<Rightarrow> 'a \<Rightarrow> exn + 'a sequence" where
  "py_append (PyList xs) x = Inr (PyList (xs @ [x]))"
| "py_append (PyTuple xs) x = Inl AttributeError"

text \<open>
  \<open>DefinitionDescriptor\<close>. The attribute \<open>pipeline\<close> does not exist until the renderer
  sets it.
\<close>

record definition_descriptor =
  pipeline_name :: string
  pipeline_definition :: yaml
  main_repo :: main_repo
  concourse_target_cfg :: concourse_cfg
  concourse_target_team :: string
  override_definitions :: "yaml sequence"
  exception :: "exn option"
  pipeline :: "string option"

definition concourse_target :: "definition_descriptor \<Rightarrow> concourse_cfg \<times> string" where
  "concourse_target d = (concourse_target_cfg d, concourse_target_team d)"

definition concourse_target_key :: "definition_descriptor \<Rightarrow> string" where
  "concourse_target_key d = cfg_name (concourse_target_cfg d) @ '':'' @ concourse_target_team d"

definition template_name :: "definition_descriptor \<Rightarrow> exn + yaml" where
  "template_name d = dict_get (pipeline_definition d) ''template'' (YStr ''default'')"

section \<open>The descriptor preprocessor\<close>

text \<open>
  \<open>DefinitionDescriptorPreprocessor\<close> mutates the descriptor in place and returns it; the
  model returns the new state of the object. \<open>_inject_main_repo\<close> appends to
  \<open>override_definitions\<close> and so raises \<open>AttributeError\<close> on a descriptor that holds a
  tuple there; \<open>process_definition_descriptor\<close> has renamed the object by then, and
  nothing catches the exception or reads the object afterwards.
\<close>

definition add_branch_to_pipeline_name :: "definition_descriptor \<Rightarrow> definition_descriptor" where
  "add_branch_to_pipeline_name d =
     d\<lparr>pipeline_name := pipeline_name d @ ''-'' @ branch (main_repo d)\<rparr>"

definition inject_main_repo :: "definition_descriptor \<Rightarrow> exn + definition_descriptor" where
  "inject_main_repo d =
     (case py_append (override_definitions d)
             (YDict [(''base_definition'', YDict [(''repo'', main_repo_dict (main_repo d))])]) of
        Inl e \<Rightarrow> Inl e
      | Inr layers \<Rightarrow> Inr (d\<lparr>override_definitions := layers\<rparr>))"

definition process_definition_descriptor ::
  "definition_descriptor \<Rightarrow> exn + definition_descriptor" where
  "process_definition_descriptor d = inject_main_repo (add_branch_to_pipeline_name d)"

section \<open>The renderer\<close>

text \<open>
  A method whose Python name starts with an underscore carries the prefix \<open>u_\<close> here.

  The collaborators of \<open>Renderer\<close> are not part of the modelled code and are parameters:
  the template retriever, the pipeline-definition factory of \<open>concourse.factory\<close> and the
  template engine. Each may raise. \<open>util.merge_dicts\<close> is a parameter as well.
\<close>

type_synonym merge_dicts = "yaml \<Rightarrow> yaml \<Rightarrow> exn + yaml"

definition bind_exn :: "exn + 'a \<Rightarrow> ('a \<Rightarrow> exn + 'b) \<Rightarrow> exn + 'b" where
  "bind_exn m f = (case m of Inl e \<Rightarrow> Inl e | Inr x \<Rightarrow> f x)"

text \<open>\<open>for override in layers: effective = merge_dicts(effective, override)\<close>\<close>

fun merge_layers :: "merge_dicts \<Rightarrow> yaml \<Rightarrow> yaml list \<Rightarrow> exn + yaml" where
  "merge_layers M effective [] = Inr effective"
| "merge_layers M effective (override # rest) =
     bind_exn (M effective override) (\<lambda>merged. merge_layers M merged rest)"

text \<open>
  Modelled from the spec: \<open>RawPipelineDefinitionDescriptor\<close> of \<open>concourse.factory\<close> (name,
  base definition, variant map, template name; its \<open>name\<close> is the name it was built
  with), and what the renderer reads of the factory's product: the variants, each of which
  may declare a main repository with a branch.
\<close>

record raw_pipeline_definition_descriptor =
  rd_name :: string
  rd_base_definition :: yaml
  rd_variants :: yaml
  rd_template :: yaml

record variant =
  variant_name :: string
  has_main_repository :: bool
  main_repository_branch :: string

record pipeline_args =
  variants :: "variant list"

text \<open>The dict \<open>pipeline_metadata\<close> that is bound to \<open>pipeline\<close> in the template.\<close>

record pipeline_metadata =
  md_definition :: pipeline_args
  md_name :: string
  md_target_team :: string
  md_pipeline_name :: string

record renderer =
  template_contents :: "yaml \<Rightarrow> exn + string"
  template_include_dir :: "string option"
  create_pipeline_definition :: "raw_pipeline_definition_descriptor \<Rightarrow> exn + pipeline_args"
  mako_render :: "string \<Rightarrow> pipeline_args \<Rightarrow> pipeline_metadata \<Rightarrow> exn + string"

text \<open>
  \<open>Renderer.__init__\<close> sets the attributes \<open>lookup\<close> and \<open>cfg_set\<close> only when
  \<open>template_include_dir\<close> is truthy.
\<close>

definition has_lookup :: "renderer \<Rightarrow> bool" where
  "has_lookup R = (case template_include_dir R of None \<Rightarrow> False | Some dir \<Rightarrow> dir \<noteq> [])"

text \<open>
  The \<open>for ... else\<close> loop over the variants: the first variant with a main repository
  gives \<open>'-'.join([name, branch])\<close>, the \<open>else\<close> branch gives the bare name.
\<close>

fun determine_pipeline_name :: "string \<Rightarrow> variant list \<Rightarrow> string" where
  "determine_pipeline_name n [] = n"
| "determine_pipeline_name n (v # vs) =
     (if \<not> has_main_repository v then determine_pipeline_name n vs
      else n @ ''-'' @ main_repository_branch v)"

definition quoted :: "string \<Rightarrow> string" where
  "quoted s = CHR 0x27 # s @ [CHR 0x27]"

definition both_defined_message :: "string \<Rightarrow> string" where
  "both_defined_message n =
     ''Both '' @ quoted ''jobs'' @ '' and '' @ quoted ''variants''
       @ '' are defined in pipeline '' @ quoted n"

definition u_render ::
  "merge_dicts \<Rightarrow> renderer \<Rightarrow> definition_descriptor \<Rightarrow> exn + definition_descriptor" where
  "u_render M R d =
     bind_exn (merge_layers M (pipeline_definition d) (py_items (override_definitions d)))
       (\<lambda>effective_definition.
     bind_exn (template_name d) (\<lambda>tname.
     bind_exn (template_contents R tname) (\<lambda>contents.
     bind_exn (dict_get effective_definition ''jobs'' (YDict [])) (\<lambda>jobs.
     bind_exn (dict_get effective_definition ''variants'' (YDict [])) (\<lambda>vs.
     if py_truthy jobs \<and> py_truthy vs
     then Inl (RuntimeError (both_defined_message (pipeline_name d)))
     else
     bind_exn (dict_get effective_definition ''base_definition'' (YDict [])) (\<lambda>base.
     bind_exn (create_pipeline_definition R
        \<lparr>rd_name = pipeline_name d, rd_base_definition = base,
         rd_variants = (if py_truthy jobs then jobs else vs), rd_template = tname\<rparr>)
       (\<lambda>generated_model.
     if \<not> has_lookup R then Inl AttributeError
     else
     bind_exn (mako_render R contents generated_model
        \<lparr>md_definition = generated_model, md_name = pipeline_name d,
         md_target_team = concourse_target_team d,
         md_pipeline_name =
           determine_pipeline_name (pipeline_name d) (variants generated_model)\<rparr>)
       (\<lambda>text. Inr (d\<lparr>pipeline := Some text\<rparr>)))))))))"

datatype render_status = RenderSucceeded | RenderFailed

text \<open>
  Error details are either an exception object (a discovery error) or the text of
  \<open>traceback.format_exc()\<close> for the exception being handled.
\<close>

datatype error_details = ExceptionObject exn | FormattedTrace exn

record render_result =
  rr_definition_descriptor :: definition_descriptor
  rr_render_status :: render_status
  rr_error_details :: "error_details option"

definition render :: "merge_dicts \<Rightarrow> renderer \<Rightarrow> definition_descriptor \<Rightarrow> render_result" where
  "render M R d =
     (case u_render M R d of
        Inr d' \<Rightarrow>
          \<lparr>rr_definition_descriptor = d', rr_render_status = RenderSucceeded,
           rr_error_details = None\<rparr>
      | Inl e \<Rightarrow>
          \<lparr>rr_definition_descriptor = d, rr_render_status = RenderFailed,
           rr_error_details = Some (FormattedTrace e)\<rparr>)"

section \<open>Branch configuration\<close>

text \<open>
  Library functions used by the enumerators: \<open>util.merge_dicts\<close>, \<open>re.fullmatch\<close>
  (whether the pattern matches the whole string; an invalid pattern raises), \<open>int\<close>
  applied to a string, and \<open>yaml.load\<close> applied to the decoded content of a file.
\<close>

record library =
  lib_merge_dicts :: merge_dicts
  lib_fullmatch :: "string \<Rightarrow> string \<Rightarrow> exn + bool"
  lib_int_of_str :: "string \<Rightarrow> exn + int"
  lib_yaml_load :: "string \<Rightarrow> exn + yaml"

text \<open>\<open>BranchCfgEntry\<close>: a name and the raw value of the entry.\<close>

record branch_cfg_entry =
  entry_name :: string
  raw :: yaml

text \<open>\<open>for x in v\<close>: lists give their elements, strings their characters, dicts their keys.\<close>

fun py_iter :: "yaml \<Rightarrow> exn + yaml list" where
  "py_iter (YList xs) = Inr xs"
| "py_iter (YStr s) = Inr (map (\<lambda>c. YStr [c]) s)"
| "py_iter (YDict kvs) = Inr (map (\<lambda>kv. YStr (fst kv)) kvs)"
| "py_iter _ = Inl TypeError"

text \<open>\<open>int(v)\<close>\<close>

fun py_int :: "library \<Rightarrow> yaml \<Rightarrow> exn + int" where
  "py_int L (YInt i) = Inr i"
| "py_int L (YBool b) = Inr (if b then 1 else 0)"
| "py_int L (YStr s) = lib_int_of_str L s"
| "py_int L _ = Inl TypeError"

fun map_exn :: "('a \<Rightarrow> exn + 'b) \<Rightarrow> 'a list \<Rightarrow> exn + 'b list" where
  "map_exn f [] = Inr []"
| "map_exn f (x # xs) =
     bind_exn (f x) (\<lambda>y. bind_exn (map_exn f xs) (\<lambda>ys. Inr (y # ys)))"

fun filter_exn :: "('a \<Rightarrow> exn + bool) \<Rightarrow> 'a list \<Rightarrow> exn + 'a list" where
  "filter_exn p [] = Inr []"
| "filter_exn p (x # xs) =
     bind_exn (p x) (\<lambda>b. bind_exn (filter_exn p xs) (\<lambda>ys. Inr (if b then x # ys else ys)))"

definition index :: "branch_cfg_entry \<Rightarrow> exn + yaml" where
  "index e = dict_get (raw e) ''index'' YNone"

definition branches :: "branch_cfg_entry \<Rightarrow> exn + yaml" where
  "branches e = dict_get (raw e) ''branches'' YNone"

definition override_definitions_of :: "branch_cfg_entry \<Rightarrow> exn + yaml" where
  "override_definitions_of e = dict_get (raw e) ''inherit'' (YDict [])"

text \<open>The loop of \<open>branch_matches\<close>: the first pattern that matches ends it.\<close>

fun any_fullmatch :: "library \<Rightarrow> yaml list \<Rightarrow> string \<Rightarrow> exn + bool" where
  "any_fullmatch L [] b = Inr False"
| "any_fullmatch L (YStr p # ps) b =
     bind_exn (lib_fullmatch L p b) (\<lambda>m. if m then Inr True else any_fullmatch L ps b)"
| "any_fullmatch L (_ # ps) b = Inl TypeError"

definition branch_matches :: "library \<Rightarrow> branch_cfg_entry \<Rightarrow> string \<Rightarrow> exn + bool" where
  "branch_matches L e b =
     bind_exn (branches e) (\<lambda>bs. bind_exn (py_iter bs) (\<lambda>ps. any_fullmatch L ps b))"

text \<open>\<open>BranchCfg.cfg_entries\<close>; the argument is the raw value of the \<open>BranchCfg\<close>.\<close>

definition cfg_entries :: "yaml \<Rightarrow> exn + branch_cfg_entry list" where
  "cfg_entries cfg =
     bind_exn (dict_get cfg ''cfgs'' YNone) (\<lambda>cfgs.
       case cfgs of
         YDict kvs \<Rightarrow> Inr (map (\<lambda>kv. \<lparr>entry_name = fst kv, raw = snd kv\<rparr>) kvs)
       | _ \<Rightarrow> Inl AttributeError)"

definition matching_entries :: "library \<Rightarrow> yaml \<Rightarrow> string \<Rightarrow> exn + branch_cfg_entry list" where
  "matching_entries L cfg b =
     bind_exn (cfg_entries cfg) (filter_exn (\<lambda>e. branch_matches L e b))"

definition entry_with_idx ::
  "library \<Rightarrow> nat \<Rightarrow> branch_cfg_entry \<Rightarrow> exn + (int \<times> branch_cfg_entry)" where
  "entry_with_idx L idx entry =
     bind_exn (index entry) (\<lambda>i.
       if py_truthy i then bind_exn (py_int L i) (\<lambda>n. Inr (n, entry))
       else Inr (int idx, entry))"

text \<open>
  \<open>sorted\<close> is a stable sort, as \<open>sort_key\<close> is; \<open>enumerate\<close> numbers the matching
  entries from 0.
\<close>

definition cfg_entry_for_branch ::
  "library \<Rightarrow> yaml \<Rightarrow> string \<Rightarrow> exn + branch_cfg_entry option" where
  "cfg_entry_for_branch L cfg b =
     bind_exn (matching_entries L cfg b) (\<lambda>matching.
       if matching = [] then Inr None
       else
         bind_exn (map_exn (\<lambda>ie. entry_with_idx L (fst ie) (snd ie)) (enumerate 0 matching))
           (\<lambda>indexed_entries.
         bind_exn (merge_layers (lib_merge_dicts L) (YDict [])
                     (map (\<lambda>ie. raw (snd ie)) (sort_key fst indexed_entries)))
           (\<lambda>effective_branch_cfg.
         Inr (Some \<lparr>entry_name = ''merged'', raw = effective_branch_cfg\<rparr>))))"

section \<open>The repository enumerator\<close>

text \<open>
  What the enumerator reads of a repository through the source-control client: its
  name, the default branch (reading it may raise), the names of its branches, and the
  content of a file at a path and ref (a missing file raises \<open>NotFoundError\<close>).
\<close>

record repository =
  repo_name :: string
  default_branch :: "exn + string"
  repo_branches :: "string list"
  file_contents :: "string \<Rightarrow> string \<Rightarrow> exn + string"

text \<open>
  The enumerator object: the CI-server configuration and team of its job mapping, and
  the host name of the source-control configuration.
\<close>

record enumerator =
  enum_concourse_cfg :: concourse_cfg
  enum_team_name :: string
  enum_hostname :: string

text \<open>
  A generator is modelled by the list of the values it yields and the way it ends:
  \<open>None\<close> when it returns or is exhausted, \<open>Some e\<close> when it raises \<open>e\<close>.
\<close>

type_synonym 'a generated = "'a list \<times> exn option"

definition u_branch_cfg_or_none :: "library \<Rightarrow> repository \<Rightarrow> exn + yaml option" where
  "u_branch_cfg_or_none L repo =
     (case bind_exn (file_contents repo ''branch.cfg'' ''refs/meta/ci'') (lib_yaml_load L) of
        Inl NotFoundError \<Rightarrow> Inr None
      | Inl e \<Rightarrow> Inl e
      | Inr cfg \<Rightarrow> Inr (Some cfg))"

fun branches_with_cfg ::
  "library \<Rightarrow> yaml \<Rightarrow> string list \<Rightarrow> (string \<times> branch_cfg_entry option) generated" where
  "branches_with_cfg L cfg [] = ([], None)"
| "branches_with_cfg L cfg (b # bs) =
     (case cfg_entry_for_branch L cfg b of
        Inl e \<Rightarrow> ([], Some e)
      | Inr None \<Rightarrow> branches_with_cfg L cfg bs
      | Inr (Some cfg_entry) \<Rightarrow>
          (case branches_with_cfg L cfg bs of (ps, x) \<Rightarrow> ((b, Some cfg_entry) # ps, x)))"

definition u_determine_repository_branches ::
  "library \<Rightarrow> repository \<Rightarrow> (string \<times> branch_cfg_entry option) generated" where
  "u_determine_repository_branches L repo =
     (case u_branch_cfg_or_none L repo of
        Inl e \<Rightarrow> ([], Some e)
      | Inr None \<Rightarrow>
          ([(case default_branch repo of Inl e \<Rightarrow> ''master'' | Inr b \<Rightarrow> b, None)], None)
      | Inr (Some cfg) \<Rightarrow> branches_with_cfg L cfg (repo_branches repo))"

text \<open>
  Modelled from the spec: \<open>util.not_empty\<close> and \<open>util.not_none\<close>, through which the
  constructor of \<open>DefinitionDescriptor\<close> passes the name and the other arguments, raise
  on an empty name and on \<open>None\<close> (a descriptor's name is non-empty); of the other
  arguments only the definition can be \<open>None\<close> here.
\<close>

definition DefinitionDescriptor ::
  "string \<Rightarrow> yaml \<Rightarrow> main_repo \<Rightarrow> concourse_cfg \<Rightarrow> string \<Rightarrow> yaml sequence \<Rightarrow> exn option
     \<Rightarrow> exn + definition_descriptor" where
  "DefinitionDescriptor n definition repo cfg team overrides exc =
     (if n = [] then Inl ValueError
      else if definition = YNone then Inl ValueError
      else Inr \<lparr>pipeline_name = n, pipeline_definition = definition, main_repo = repo,
                concourse_target_cfg = cfg, concourse_target_team = team,
                override_definitions = overrides, exception = exc, pipeline = None\<rparr>)"

fun wrap_items ::
  "enumerator \<Rightarrow> main_repo \<Rightarrow> yaml \<Rightarrow> (string \<times> yaml) list \<Rightarrow> definition_descriptor generated"
  where
  "wrap_items self repo overrides [] = ([], None)"
| "wrap_items self repo overrides ((n, definition) # items) =
     (case bind_exn (dict_get overrides n (YDict [])) (\<lambda>override.
             DefinitionDescriptor n definition repo (enum_concourse_cfg self)
               (enum_team_name self) (PyList [override]) None) of
        Inl e \<Rightarrow> ([], Some e)
      | Inr d \<Rightarrow> (case wrap_items self repo overrides items of (ds, x) \<Rightarrow> (d # ds, x)))"

definition u_wrap_into_descriptors ::
  "enumerator \<Rightarrow> string \<Rightarrow> string \<Rightarrow> string \<Rightarrow> yaml \<Rightarrow> yaml
     \<Rightarrow> definition_descriptor generated" where
  "u_wrap_into_descriptors self repo_path repo_hostname branch_name raw_definitions overrides =
     (case raw_definitions of
        YDict items \<Rightarrow>
          wrap_items self
            \<lparr>path = repo_path, branch = branch_name, hostname = repo_hostname\<rparr> overrides items
      | _ \<Rightarrow> ([], Some AttributeError))"

definition invalid_yaml_descriptor ::
  "enumerator \<Rightarrow> string \<Rightarrow> string \<Rightarrow> exn \<Rightarrow> definition_descriptor" where
  "invalid_yaml_descriptor self repo_path branch_name e =
     \<lparr>pipeline_name = ''<invalid YAML>'', pipeline_definition = YDict [],
      main_repo = \<lparr>path = repo_path, branch = branch_name, hostname = enum_hostname self\<rparr>,
      concourse_target_cfg = enum_concourse_cfg self,
      concourse_target_team = enum_team_name self,
      override_definitions = PyTuple [], exception = Some e, pipeline = None\<rparr>"

text \<open>
  One pass through the body of the loop in \<open>_scan_repository_for_definitions\<close> ends
  with the next iteration (\<open>continue\<close>, or the end of the body), with \<open>return\<close>, or with
  an exception; in each case some descriptors may have been yielded.
\<close>

datatype 'a step = Continue "'a list" | Return "'a list" | Raise "'a list" exn

fun yielded :: "'a step \<Rightarrow> 'a list" where
  "yielded (Continue xs) = xs"
| "yielded (Return xs) = xs"
| "yielded (Raise xs e) = xs"

definition scan_branch ::
  "library \<Rightarrow> enumerator \<Rightarrow> repository \<Rightarrow> string \<Rightarrow> string \<Rightarrow> branch_cfg_entry option
     \<Rightarrow> definition_descriptor step" where
  "scan_branch L self repo org_name branch_name cfg_entry =
     (case file_contents repo ''.ci/pipeline_definitions'' branch_name of
        Inl NotFoundError \<Rightarrow> Continue []
      | Inl e \<Rightarrow> Raise [] e
      | Inr definitions_file \<Rightarrow>
          (case (case cfg_entry of None \<Rightarrow> Inr (YDict [])
                 | Some entry \<Rightarrow> override_definitions_of entry) of
             Inl e \<Rightarrow> Raise [] e
           | Inr overrides \<Rightarrow>
               (case lib_yaml_load L definitions_file of
                  Inl e \<Rightarrow>
                    Return [invalid_yaml_descriptor self (org_name @ ''/'' @ repo_name repo)
                              branch_name e]
                | Inr definitions \<Rightarrow>
                    (case lib_merge_dicts L definitions overrides of
                       Inl e \<Rightarrow> Raise [] e
                     | Inr merged \<Rightarrow>
                         (case u_wrap_into_descriptors self (org_name @ ''/'' @ repo_name repo)
                                 (enum_hostname self) branch_name merged overrides of
                            (ds, Some e) \<Rightarrow> Raise ds e
                          | (ds, None) \<Rightarrow> Continue ds)))))"

text \<open>
  The loop over the pairs that \<open>_determine_repository_branches\<close> yields. \<open>after\<close> is
  the way that generator ends once the pairs are used up.
\<close>

fun scan_branches ::
  "library \<Rightarrow> enumerator \<Rightarrow> repository \<Rightarrow> string
     \<Rightarrow> (string \<times> branch_cfg_entry option) list \<Rightarrow> exn option
     \<Rightarrow> definition_descriptor generated" where
  "scan_branches L self repo org_name [] after = ([], after)"
| "scan_branches L self repo org_name ((branch_name, cfg_entry) # rest) after =
     (case scan_branch L self repo org_name branch_name cfg_entry of
        Continue ds \<Rightarrow>
          (case scan_branches L self repo org_name rest after of (ds', x) \<Rightarrow> (ds @ ds', x))
      | Return ds \<Rightarrow> (ds, None)
      | Raise ds e \<Rightarrow> (ds, Some e))"

definition u_scan_repository_for_definitions ::
  "library \<Rightarrow> enumerator \<Rightarrow> repository \<Rightarrow> string \<Rightarrow> definition_descriptor generated"
  where
  "u_scan_repository_for_definitions L self repo org_name =
     (case u_determine_repository_branches L repo of
        (pairs, after) \<Rightarrow> scan_branches L self repo org_name pairs after)"

section \<open>The CI server, the mail system and their traces\<close>

text \<open>
  The CI-server client and the owner notification act on the world outside the program.
  Each call the program makes is recorded as an event together with its outcome: an
  exception or a return value. The environment decides the outcome of a call from the
  events so far, so it may behave like any stateful server.
\<close>

type_synonym target = "concourse_cfg \<times> string"

text \<open>
  Modelled from the spec: \<open>concourse.client.model.SetPipelineResult\<close> (created or updated),
  with one more value for anything else the call may return, and a resource of a
  pipeline, which has a name and may have a webhook token.
\<close>

datatype set_pipeline_result = SetPipelineCREATED | SetPipelineUPDATED | SetPipelineOther

record resource =
  resource_name :: string
  has_webhook_token :: bool

record deploy_result =
  dr_definition_descriptor :: definition_descriptor
  deploy_status :: nat
  dr_error_details :: "error_details option"

datatype call =
    FromCfg target
  | SetPipeline target string string
  | UnpausePipeline target string
  | ExposePipeline target string
  | Pipelines target
  | DeletePipeline target string
  | PipelineResources target string
  | TriggerResourceCheck target string string
  | OrderPipelines target "string list"
  | NotifyBrokenDefinitionOwners deploy_result

datatype outcome =
    Raised exn
  | Returned
  | ReturnedResult set_pipeline_result
  | ReturnedNames "string list"
  | ReturnedResources "resource list"

type_synonym event = "call \<times> outcome"

record environment =
  command_raises :: "event list \<Rightarrow> call \<Rightarrow> exn option"
  set_pipeline_returns :: "event list \<Rightarrow> target \<Rightarrow> string \<Rightarrow> string \<Rightarrow> exn + set_pipeline_result"
  pipelines_returns :: "event list \<Rightarrow> target \<Rightarrow> exn + string list"
  pipeline_resources_returns :: "event list \<Rightarrow> target \<Rightarrow> string \<Rightarrow> exn + resource list"

text \<open>
  A computation takes the events so far and gives its result, an exception or a value,
  with the events it adds.
\<close>

type_synonym 'a io = "event list \<Rightarrow> (exn + 'a) \<times> event list"

definition return_io :: "'a \<Rightarrow> 'a io" where
  "return_io x tr = (Inr x, [])"

definition raise_io :: "exn \<Rightarrow> 'a io" where
  "raise_io e tr = (Inl e, [])"

definition bind_io :: "'a io \<Rightarrow> ('a \<Rightarrow> 'b io) \<Rightarrow> 'b io" where
  "bind_io m f tr =
     (case m tr of
        (Inl e, evs) \<Rightarrow> (Inl e, evs)
      | (Inr x, evs) \<Rightarrow> (case f x (tr @ evs) of (r, evs') \<Rightarrow> (r, evs @ evs')))"

fun foreach_io :: "('a \<Rightarrow> unit io) \<Rightarrow> 'a list \<Rightarrow> unit io" where
  "foreach_io f [] = return_io ()"
| "foreach_io f (x # xs) = bind_io (f x) (\<lambda>_. foreach_io f xs)"

definition command :: "environment \<Rightarrow> call \<Rightarrow> unit io" where
  "command E c tr =
     (case command_raises E tr c of
        Some e \<Rightarrow> (Inl e, [(c, Raised e)])
      | None \<Rightarrow> (Inr (), [(c, Returned)]))"

definition set_pipeline :: "environment \<Rightarrow> target \<Rightarrow> string \<Rightarrow> string \<Rightarrow> set_pipeline_result io"
  where
  "set_pipeline E t n p tr =
     (case set_pipeline_returns E tr t n p of
        Inl e \<Rightarrow> (Inl e, [(SetPipeline t n p, Raised e)])
      | Inr r \<Rightarrow> (Inr r, [(SetPipeline t n p, ReturnedResult r)]))"

definition pipelines :: "environment \<Rightarrow> target \<Rightarrow> string list io" where
  "pipelines E t tr =
     (case pipelines_returns E tr t of
        Inl e \<Rightarrow> (Inl e, [(Pipelines t, Raised e)])
      | Inr ns \<Rightarrow> (Inr ns, [(Pipelines t, ReturnedNames ns)]))"

definition pipeline_resources :: "environment \<Rightarrow> target \<Rightarrow> string \<Rightarrow> resource list io" where
  "pipeline_resources E t n tr =
     (case pipeline_resources_returns E tr t n of
        Inl e \<Rightarrow> (Inl e, [(PipelineResources t n, Raised e)])
      | Inr rs \<Rightarrow> (Inr rs, [(PipelineResources t n, ReturnedResources rs)]))"

text \<open>The exceptions raised by the calls of a trace, and the pipelines it deleted.\<close>

definition raised :: "event list \<Rightarrow> exn list" where
  "raised evs = concat (map (\<lambda>ev. case snd ev of Raised e \<Rightarrow> [e] | _ \<Rightarrow> []) evs)"


section \<open>The deployer\<close>

unbundle bit_operations_syntax

text \<open>\<open>DeployStatus\<close>, an \<open>IntEnum\<close> used as a bit mask.\<close>

definition SUCCEEDED :: nat where "SUCCEEDED = 1"
definition FAILED :: nat where "FAILED = 2"
definition SKIPPED :: nat where "SKIPPED = 4"
definition CREATED :: nat where "CREATED = 8"

record concourse_deployer =
  unpause_pipelines :: bool
  expose_pipelines :: bool

text \<open>The body of the \<open>try\<close> statement of \<open>ConcourseDeployer.deploy\<close>.\<close>

definition deploy_attempt ::
  "environment \<Rightarrow> concourse_deployer \<Rightarrow> definition_descriptor \<Rightarrow> string \<Rightarrow> nat io" where
  "deploy_attempt E self d pipeline_text =
     bind_io (command E (FromCfg (concourse_target d))) (\<lambda>_.
     bind_io (set_pipeline E (concourse_target d) (pipeline_name d) pipeline_text)
       (\<lambda>response.
     bind_io (if unpause_pipelines self
              then command E (UnpausePipeline (concourse_target d) (pipeline_name d))
              else return_io ()) (\<lambda>_.
     bind_io (if expose_pipelines self
              then command E (ExposePipeline (concourse_target d) (pipeline_name d))
              else return_io ()) (\<lambda>_.
     case response of
       SetPipelineCREATED \<Rightarrow> return_io (SUCCEEDED OR CREATED)
     | SetPipelineUPDATED \<Rightarrow> return_io SUCCEEDED
     | SetPipelineOther \<Rightarrow> raise_io NotImplementedError))))"

text \<open>
  \<open>definition_descriptor.pipeline\<close> is read before the \<open>try\<close>; on a descriptor that was
  never rendered the attribute is missing.
\<close>

definition deploy ::
  "environment \<Rightarrow> concourse_deployer \<Rightarrow> definition_descriptor \<Rightarrow> deploy_result io" where
  "deploy E self d tr =
     (case pipeline d of
        None \<Rightarrow> (Inl AttributeError, [])
      | Some pipeline_text \<Rightarrow>
          (case deploy_attempt E self d pipeline_text tr of
             (Inr status, evs) \<Rightarrow>
               (Inr \<lparr>dr_definition_descriptor = d, deploy_status = status,
                     dr_error_details = None\<rparr>, evs)
           | (Inl e, evs) \<Rightarrow>
               (Inr \<lparr>dr_definition_descriptor = d, deploy_status = FAILED,
                     dr_error_details = Some (FormattedTrace e)\<rparr>, evs)))"

section \<open>The result processor\<close>

text \<open>
  \<open>concourse_target_results\<close>: a dict from target key to the set of results with that
  key. The dict keeps the order in which the keys were inserted. Python leaves the
  iteration order of a set open; here a set of results is the list of its members in
  the order of insertion, and a set of names is a list without duplicates.
\<close>

fun add_result ::
  "(string \<times> deploy_result list) list \<Rightarrow> deploy_result \<Rightarrow> (string \<times> deploy_result list) list"
  where
  "add_result [] r = [(concourse_target_key (dr_definition_descriptor r), [r])]"
| "add_result ((k, rs) # buckets) r =
     (if k = concourse_target_key (dr_definition_descriptor r) then (k, rs @ [r]) # buckets
      else (k, rs) # add_result buckets r)"

definition results_by_target :: "deploy_result list \<Rightarrow> (string \<times> deploy_result list) list" where
  "results_by_target results = foldl add_result [] results"

definition result_name :: "deploy_result \<Rightarrow> string" where
  "result_name r = pipeline_name (dr_definition_descriptor r)"

definition result_target :: "deploy_result \<Rightarrow> target" where
  "result_target r = concourse_target (dr_definition_descriptor r)"

definition pipelines_to_remove :: "string list \<Rightarrow> deploy_result list \<Rightarrow> string list" where
  "pipelines_to_remove listed concourse_results =
     filter (\<lambda>n. n \<notin> set (map result_name concourse_results)) (remdups listed)"

definition u_initialise_new_pipeline_resources ::
  "environment \<Rightarrow> target \<Rightarrow> deploy_result list \<Rightarrow> unit io" where
  "u_initialise_new_pipeline_resources E t results =
     foreach_io (\<lambda>n.
         bind_io (command E (UnpausePipeline t n)) (\<lambda>_.
         bind_io (pipeline_resources E t n) (\<lambda>resources.
         foreach_io (\<lambda>res. command E (TriggerResourceCheck t n (resource_name res)))
           (filter has_webhook_token resources))))
       (map result_name (filter (\<lambda>r. deploy_status r AND CREATED \<noteq> 0) results))"

text \<open>
  The body of the loop over the targets. \<open>next(iter(concourse_results))\<close> takes a member
  of the set; on an empty set it would raise \<open>StopIteration\<close>.
\<close>

definition reconcile_target :: "environment \<Rightarrow> deploy_result list \<Rightarrow> unit io" where
  "reconcile_target E concourse_results =
     (case concourse_results of
        [] \<Rightarrow> raise_io (External ''StopIteration'')
      | first # _ \<Rightarrow>
          bind_io (command E (FromCfg (result_target first))) (\<lambda>_.
          bind_io (pipelines E (result_target first)) (\<lambda>listed.
          bind_io (foreach_io (\<lambda>n. command E (DeletePipeline (result_target first) n))
                     (pipelines_to_remove listed concourse_results)) (\<lambda>_.
          bind_io (u_initialise_new_pipeline_resources E (result_target first) concourse_results)
            (\<lambda>_.
          bind_io (pipelines E (result_target first)) (\<lambda>pipeline_names.
          command E (OrderPipelines (result_target first) (sort pipeline_names))))))))"

text \<open>
  The notification loop: an exception of a notification is caught and clears the flag.
  \<open>_notify_broken_definition_owners\<close> consists of calls to the source-control client,
  the code-owner lookup and the mail transport; it is one call of the environment here.
\<close>

fun notify_all :: "environment \<Rightarrow> deploy_result list \<Rightarrow> bool \<Rightarrow> bool io" where
  "notify_all E [] all_notifications_succeeded = return_io all_notifications_succeeded"
| "notify_all E (failed_descriptor # rest) all_notifications_succeeded =
     (\<lambda>tr. case command E (NotifyBrokenDefinitionOwners failed_descriptor) tr of
        (Inr _, evs) \<Rightarrow>
          (case notify_all E rest all_notifications_succeeded (tr @ evs) of
             (r, evs') \<Rightarrow> (r, evs @ evs'))
      | (Inl e, evs) \<Rightarrow>
          (case notify_all E rest False (tr @ evs) of (r, evs') \<Rightarrow> (r, evs @ evs')))"

definition failed_descriptors :: "deploy_result list \<Rightarrow> deploy_result list" where
  "failed_descriptors results = filter (\<lambda>d. deploy_status d AND SUCCEEDED = 0) results"

definition process_results :: "environment \<Rightarrow> deploy_result list \<Rightarrow> bool io" where
  "process_results E results =
     bind_io (foreach_io (\<lambda>bucket. reconcile_target E (snd bucket)) (results_by_target results))
       (\<lambda>_.
     if length (failed_descriptors results) = 0 then return_io True
     else notify_all E (failed_descriptors results) True)"

section \<open>The replicator\<close>

text \<open>
  \<open>PipelineReplicator._process_definition_descriptor\<close> with the preprocessor and the
  renderer of this repository and any deployer \<open>D\<close>. The preprocessor changes the
  descriptor object in place, so the descriptor of the SKIPPED result after a failed
  render is the preprocessed one. Nothing catches an exception of the preprocessor.
\<close>

definition u_process_definition_descriptor ::
  "merge_dicts \<Rightarrow> renderer \<Rightarrow> (definition_descriptor \<Rightarrow> deploy_result io)
     \<Rightarrow> definition_descriptor \<Rightarrow> deploy_result io" where
  "u_process_definition_descriptor M R D d tr =
     (case exception d of
        Some e \<Rightarrow>
          (Inr \<lparr>dr_definition_descriptor = d, deploy_status = SKIPPED,
                dr_error_details = Some (ExceptionObject e)\<rparr>, [])
      | None \<Rightarrow>
          (case process_definition_descriptor d of
             Inl e \<Rightarrow> (Inl e, [])
           | Inr preprocessed \<Rightarrow>
               (let result = render M R preprocessed
                in if rr_render_status result = RenderSucceeded
                   then D (rr_definition_descriptor result) tr
                   else (Inr \<lparr>dr_definition_descriptor = preprocessed, deploy_status = SKIPPED,
                              dr_error_details = rr_error_details result\<rparr>, []))))"

section \<open>The merge order of branch-configuration entries, in the specification's words\<close>

text \<open>
  The explicit index of an entry: the integer under the key \<open>index\<close>, if there is one.
\<close>

definition explicit_index :: "branch_cfg_entry \<Rightarrow> int option" where
  "explicit_index e =
     (case raw e of
        YDict kvs \<Rightarrow> (case map_of kvs ''index'' of Some (YInt i) \<Rightarrow> Some i | _ \<Rightarrow> None)
      | _ \<Rightarrow> None)"

text \<open>
  An entry is plainly indexed when its raw value is a dict whose \<open>index\<close> is absent,
  \<open>None\<close> or an integer other than 0.
\<close>

definition plainly_indexed :: "branch_cfg_entry \<Rightarrow> bool" where
  "plainly_indexed e =
     (case raw e of
        YDict kvs \<Rightarrow>
          (case map_of kvs ''index'' of
             None \<Rightarrow> True | Some YNone \<Rightarrow> True | Some (YInt i) \<Rightarrow> i \<noteq> 0 | _ \<Rightarrow> False)
      | _ \<Rightarrow> False)"

text \<open>
  The sort key of the entry at position \<open>i\<close> among the matching entries: its explicit
  index, or its position when it has none.
\<close>

definition sort_keys :: "branch_cfg_entry list \<Rightarrow> (int \<times> branch_cfg_entry) list" where
  "sort_keys ms =
     map (\<lambda>ie. (case explicit_index (snd ie) of Some n \<Rightarrow> n | None \<Rightarrow> int (fst ie), snd ie))
       (enumerate 0 ms)"

definition merge_order :: "branch_cfg_entry list \<Rightarrow> branch_cfg_entry list" where
  "merge_order ms = map snd (sort_key fst (sort_keys ms))"

text \<open>
  The order claim C2 asks for: a rearrangement of the matching entries in which the
  explicit indices ascend strictly and the entries without index keep their encounter
  order.
\<close>

definition strictly_ascending_order ::
  "branch_cfg_entry list \<Rightarrow> branch_cfg_entry list \<Rightarrow> bool" where
  "strictly_ascending_order ms ordered \<longleftrightarrow>
     mset ordered = mset ms
   \<and> sorted_wrt (<) (map (\<lambda>e. the (explicit_index e))
        (filter (\<lambda>e. explicit_index e \<noteq> None) ordered))
   \<and> filter (\<lambda>e. explicit_index e = None) ordered = filter (\<lambda>e. explicit_index e = None) ms"

section \<open>Predicates on traces\<close>

text \<open>Every event that a computation adds, from whatever events so far, satisfies \<open>P\<close>.\<close>

definition emits :: "(event \<Rightarrow> bool) \<Rightarrow> 'a io \<Rightarrow> bool" where
  "emits P m \<longleftrightarrow> (\<forall>tr. \<forall>ev\<in>set (snd (m tr)). P ev)"

text \<open>The target a call of the CI-server client goes to.\<close>

fun call_target :: "call \<Rightarrow> target option" where
  "call_target (FromCfg t) = Some t"
| "call_target (SetPipeline t n p) = Some t"
| "call_target (UnpausePipeline t n) = Some t"
| "call_target (ExposePipeline t n) = Some t"
| "call_target (Pipelines t) = Some t"
| "call_target (DeletePipeline t n) = Some t"
| "call_target (PipelineResources t n) = Some t"
| "call_target (TriggerResourceCheck t n r) = Some t"
| "call_target (OrderPipelines t ns) = Some t"
| "call_target (NotifyBrokenDefinitionOwners r) = None"

definition result_key :: "deploy_result \<Rightarrow> string" where
  "result_key r = concourse_target_key (dr_definition_descriptor r)"

section \<open>Example inputs\<close>

text \<open>Concrete inputs for the closed theorems below.\<close>

text \<open>
  Modelled from the spec: \<open>util.merge_dicts\<close> as the specification describes the deep
  merge: mapping values merge key by key, every other value of the later layer
  overwrites. The general theorems hold for every \<open>merge_dicts\<close>.
\<close>

fun deep_merge :: "yaml \<Rightarrow> yaml \<Rightarrow> yaml"
  and merge_key :: "(string \<times> yaml) list \<Rightarrow> string \<Rightarrow> yaml \<Rightarrow> (string \<times> yaml) list"
  and merge_items :: "(string \<times> yaml) list \<Rightarrow> (string \<times> yaml) list \<Rightarrow> (string \<times> yaml) list"
where
  "deep_merge (YDict base) (YDict other) = YDict (merge_items base other)"
| "deep_merge b (YDict other) = YDict other"
| "deep_merge b YNone = YNone"
| "deep_merge b (YBool x) = YBool x"
| "deep_merge b (YInt x) = YInt x"
| "deep_merge b (YStr x) = YStr x"
| "deep_merge b (YList x) = YList x"
| "merge_key [] k v = [(k, v)]"
| "merge_key ((k', w) # rest) k v =
     (if k' = k then (k, deep_merge w v) # rest else (k', w) # merge_key rest k v)"
| "merge_items base [] = base"
| "merge_items base ((k, v) # kvs) = merge_items (merge_key base k v) kvs"

definition example_merge :: merge_dicts where
  "example_merge a b = Inr (deep_merge a b)"

definition example_cfg :: concourse_cfg where
  "example_cfg = \<lparr>cfg_name = ''concourse'', cfg_url = ''https://ci.example.org''\<rparr>"

definition example_descriptor :: definition_descriptor where
  "example_descriptor =
     \<lparr>pipeline_name = ''p1-master'',
      pipeline_definition = YDict [(''jobs'', YDict [(''v1'', YDict [])])],
      main_repo = \<lparr>path = ''org/repo'', branch = ''master'', hostname = ''github.com''\<rparr>,
      concourse_target_cfg = example_cfg,
      concourse_target_team = ''team'',
      override_definitions = PyList [YDict []],
      exception = None,
      pipeline = None\<rparr>"

definition example_variant :: variant where
  "example_variant =
     \<lparr>variant_name = ''v1'', has_main_repository = True, main_repository_branch = ''dev''\<rparr>"

definition example_renderer :: renderer where
  "example_renderer =
     \<lparr>template_contents = (\<lambda>n. Inr ''template: ''),
      template_include_dir = Some ''/templates'',
      create_pipeline_definition = (\<lambda>rd. Inr \<lparr>variants = [example_variant]\<rparr>),
      mako_render = (\<lambda>contents model md. Inr (contents @ md_pipeline_name md))\<rparr>"

definition ambiguous_descriptor :: definition_descriptor where
  "ambiguous_descriptor =
     example_descriptor
       \<lparr>override_definitions := PyList [YDict [(''variants'', YDict [(''v2'', YDict [])])]]\<rparr>"


text \<open>
  A library whose regular expressions are literal strings, whose \<open>int\<close> reads no
  string, and whose YAML loader knows two documents.
\<close>

definition example_library :: library where
  "example_library =
     \<lparr>lib_merge_dicts = example_merge,
      lib_fullmatch = (\<lambda>p s. Inr (p = s)),
      lib_int_of_str = (\<lambda>s. Inl ValueError),
      lib_yaml_load = (\<lambda>s.
        if s = ''p1: {}'' then Inr (YDict [(''p1'', YDict [])])
        else if s = ''cfgs: {all: {branches: [b1, b2]}}''
        then Inr (YDict [(''cfgs'', YDict [(''all'',
               YDict [(''branches'', YList [YStr ''b1'', YStr ''b2''])])])])
        else Inl (External ''YAMLError''))\<rparr>"

definition entry_a :: branch_cfg_entry where
  "entry_a = \<lparr>entry_name = ''a'',
     raw = YDict [(''branches'', YList [YStr ''master'']), (''index'', YInt 1),
                  (''inherit'', YDict [(''p1'', YDict [(''template'', YStr ''a'')])])]\<rparr>"

definition entry_b :: branch_cfg_entry where
  "entry_b = \<lparr>entry_name = ''b'',
     raw = YDict [(''branches'', YList [YStr ''master'']), (''index'', YInt 1),
                  (''inherit'', YDict [(''p1'', YDict [(''template'', YStr ''b'')])])]\<rparr>"

definition entry_c :: branch_cfg_entry where
  "entry_c = \<lparr>entry_name = ''c'',
     raw = YDict [(''branches'', YList [YStr ''dev'', YStr ''master'']),
                  (''inherit'', YDict [(''p1'', YDict [(''template'', YStr ''c'')])])]\<rparr>"

definition entry_d :: branch_cfg_entry where
  "entry_d = \<lparr>entry_name = ''d'',
     raw = YDict [(''branches'', YList [YStr ''master'']), (''index'', YInt 5)]\<rparr>"

definition tie_branch_cfg :: yaml where
  "tie_branch_cfg = YDict [(''cfgs'', YDict [(''a'', raw entry_a), (''b'', raw entry_b)])]"

definition example_branch_cfg :: yaml where
  "example_branch_cfg =
     YDict [(''cfgs'', YDict [(''d'', raw entry_d), (''c'', raw entry_c),
                              (''a'', raw entry_a)])]"


text \<open>
  A repository with the branches \<open>b1\<close> and \<open>b2\<close>: the definitions file on \<open>b1\<close> does
  not parse, the one on \<open>b2\<close> declares the pipeline \<open>p1\<close>.
\<close>

definition example_repository :: repository where
  "example_repository =
     \<lparr>repo_name = ''repo'',
      default_branch = Inr ''b1'',
      repo_branches = [''b1'', ''b2''],
      file_contents = (\<lambda>p r.
        if p = ''branch.cfg'' \<and> r = ''refs/meta/ci''
        then Inr ''cfgs: {all: {branches: [b1, b2]}}''
        else if p = ''.ci/pipeline_definitions'' \<and> r = ''b1'' then Inr ''p1: {''
        else if p = ''.ci/pipeline_definitions'' \<and> r = ''b2'' then Inr ''p1: {}''
        else Inl NotFoundError)\<rparr>"

definition example_enumerator :: enumerator where
  "example_enumerator =
     \<lparr>enum_concourse_cfg = example_cfg, enum_team_name = ''team'',
      enum_hostname = ''github.com''\<rparr>"

definition all_entry :: branch_cfg_entry where
  "all_entry = \<lparr>entry_name = ''merged'',
     raw = YDict [(''branches'', YList [YStr ''b1'', YStr ''b2''])]\<rparr>"


text \<open>
  A CI server that starts with the pipelines \<open>A\<close>, \<open>B\<close> and \<open>C\<close> at every target,
  lists those not yet deleted, reports every pipeline it sets as created, and a mail
  system that cannot reach the owners of \<open>B\<close>.
\<close>

definition example_environment :: environment where
  "example_environment =
     \<lparr>command_raises = (\<lambda>tr c.
        case c of
          NotifyBrokenDefinitionOwners r \<Rightarrow>
            if pipeline_name (dr_definition_descriptor r) = ''B''
            then Some (External ''SMTPError'') else None
        | _ \<Rightarrow> None),
      set_pipeline_returns = (\<lambda>tr t n p. Inr SetPipelineCREATED),
      pipelines_returns = (\<lambda>tr t.
        Inr (filter (\<lambda>n. (DeletePipeline t n, Returned) \<notin> set tr) [''A'', ''B'', ''C''])),
      pipeline_resources_returns = (\<lambda>tr t n.
        Inr [\<lparr>resource_name = ''source'', has_webhook_token = True\<rparr>,
             \<lparr>resource_name = ''timer'', has_webhook_token = False\<rparr>])\<rparr>"

text \<open>
  The same server when it knows every pipeline already, and when it cannot be reached
  once the client is made.
\<close>

definition updating_environment :: environment where
  "updating_environment =
     example_environment\<lparr>set_pipeline_returns := (\<lambda>tr t n p. Inr SetPipelineUPDATED)\<rparr>"

definition unreachable_environment :: environment where
  "unreachable_environment =
     example_environment
       \<lparr>set_pipeline_returns := (\<lambda>tr t n p. Inl (External ''ConnectionError''))\<rparr>"

definition example_deployer :: concourse_deployer where
  "example_deployer = \<lparr>unpause_pipelines = True, expose_pipelines = True\<rparr>"

definition rendered_descriptor :: definition_descriptor where
  "rendered_descriptor = example_descriptor\<lparr>pipeline := Some ''jobs: []''\<rparr>"

definition unprocessed_descriptor :: definition_descriptor where
  "unprocessed_descriptor =
     ambiguous_descriptor\<lparr>pipeline_name := ''p1''\<rparr>"

definition preprocessed_descriptor :: definition_descriptor where
  "preprocessed_descriptor =
     \<lparr>pipeline_name = ''p1-master'',
      pipeline_definition = YDict [(''jobs'', YDict [(''v1'', YDict [])])],
      main_repo = \<lparr>path = ''org/repo'', branch = ''master'', hostname = ''github.com''\<rparr>,
      concourse_target_cfg = example_cfg,
      concourse_target_team = ''team'',
      override_definitions =
        PyList [YDict [(''variants'', YDict [(''v2'', YDict [])])],
                YDict [(''base_definition'', YDict [(''repo'',
                  YDict [(''path'', YStr ''org/repo''), (''branch'', YStr ''master''),
                         (''hostname'', YStr ''github.com'')])])]],
      exception = None,
      pipeline = None\<rparr>"


text \<open>
  The results of a run for one target: \<open>A\<close> was created, the deploy of \<open>B\<close> failed.
\<close>

definition result_A :: deploy_result where
  "result_A =
     \<lparr>dr_definition_descriptor = rendered_descriptor\<lparr>pipeline_name := ''A''\<rparr>,
      deploy_status = 9, dr_error_details = None\<rparr>"

definition result_B :: deploy_result where
  "result_B =
     \<lparr>dr_definition_descriptor = rendered_descriptor\<lparr>pipeline_name := ''B''\<rparr>,
      deploy_status = 2, dr_error_details = Some (FormattedTrace (External ''ConnectionError''))\<rparr>"

text \<open>
  Two more results for the same target: the render of \<open>B\<close> failed, so that its deploy was
  skipped, and the deploy of \<open>C\<close> failed.
\<close>

definition result_S :: deploy_result where
  "result_S =
     \<lparr>dr_definition_descriptor = example_descriptor\<lparr>pipeline_name := ''B''\<rparr>,
      deploy_status = 4,
      dr_error_details = Some (FormattedTrace (RuntimeError (both_defined_message ''B'')))\<rparr>"

definition result_C :: deploy_result where
  "result_C =
     \<lparr>dr_definition_descriptor = rendered_descriptor\<lparr>pipeline_name := ''C''\<rparr>,
      deploy_status = 2, dr_error_details = Some (FormattedTrace (External ''ConnectionError''))\<rparr>"

definition example_sweep :: "event list" where
  "example_sweep =
     [(FromCfg (example_cfg, ''team''), Returned),
      (Pipelines (example_cfg, ''team''), ReturnedNames [''A'', ''B'', ''C'']),
      (DeletePipeline (example_cfg, ''team'') ''C'', Returned),
      (UnpausePipeline (example_cfg, ''team'') ''A'', Returned),
      (PipelineResources (example_cfg, ''team'') ''A'',
         ReturnedResources [\<lparr>resource_name = ''source'', has_webhook_token = True\<rparr>,
                            \<lparr>resource_name = ''timer'', has_webhook_token = False\<rparr>]),
      (TriggerResourceCheck (example_cfg, ''team'') ''A'' ''source'', Returned),
      (Pipelines (example_cfg, ''team''), ReturnedNames [''A'', ''B'']),
      (OrderPipelines (example_cfg, ''team'') [''A'', ''B''], Returned)]"

definition example_sweep_C :: "event list" where
  "example_sweep_C =
     [(FromCfg (example_cfg, ''team''), Returned),
      (Pipelines (example_cfg, ''team''), ReturnedNames [''A'', ''B'', ''C'']),
      (DeletePipeline (example_cfg, ''team'') ''B'', Returned),
      (UnpausePipeline (example_cfg, ''team'') ''A'', Returned),
      (PipelineResources (example_cfg, ''team'') ''A'',
         ReturnedResources [\<lparr>resource_name = ''source'', has_webhook_token = True\<rparr>,
                            \<lparr>resource_name = ''timer'', has_webhook_token = False\<rparr>]),
      (TriggerResourceCheck (example_cfg, ''team'') ''A'' ''source'', Returned),
      (Pipelines (example_cfg, ''team''), ReturnedNames [''A'', ''C'']),
      (OrderPipelines (example_cfg, ''team'') [''A'', ''C''], Returned)]"

section \<open>Properties of the preprocessor\<close>

text \<open>
  Claim C9, amended. For every descriptor whose \<open>override_definitions\<close> is a list (the
  enumerators give a list to every descriptor without discovery exception), the
  preprocessor returns the descriptor with \<open>pipeline_name\<close> rewritten to
  \<open><name>-<branch>\<close>, the branch being that of the main repository, and with exactly one
  layer appended at the end of the list: the mapping whose only key \<open>base_definition\<close>
  holds the mapping whose only key \<open>repo\<close> holds the main repository, that is its path,
  its branch and its hostname. The layers that were there keep their places; the pipeline
  definition, the main repository and every other attribute are as they were.
\<close>

theorem preprocessor_renames_and_injects:
  assumes "override_definitions d = PyList layers"
  shows "process_definition_descriptor d =
     Inr (d\<lparr>pipeline_name := pipeline_name d @ ''-'' @ branch (main_repo d),
            override_definitions := PyList (layers @
              [YDict [(''base_definition'', YDict [(''repo'',
                 YDict [(''path'', YStr (path (main_repo d))),
                        (''branch'', YStr (branch (main_repo d))),
                        (''hostname'', YStr (hostname (main_repo d)))])])]])\<rparr>)
   \<and> (\<exists>d'. process_definition_descriptor d = Inr d'
         \<and> pipeline_name d' = pipeline_name d @ ''-'' @ branch (main_repo d)
         \<and> length (py_items (override_definitions d')) = Suc (length layers)
         \<and> take (length layers) (py_items (override_definitions d')) = layers
         \<and> pipeline_definition d' = pipeline_definition d
         \<and> main_repo d' = main_repo d
         \<and> concourse_target d' = concourse_target d
         \<and> exception d' = exception d
         \<and> pipeline d' = pipeline d)"
  using assms
  by (simp add: process_definition_descriptor_def inject_main_repo_def
      add_branch_to_pipeline_name_def main_repo_dict_def concourse_target_def)

theorem preprocessor_renames_and_injects_witness:
  "process_definition_descriptor unprocessed_descriptor = Inr preprocessed_descriptor
   \<and> pipeline_name preprocessed_descriptor = ''p1-master''
   \<and> override_definitions preprocessed_descriptor =
       PyList [YDict [(''variants'', YDict [(''v2'', YDict [])])],
               YDict [(''base_definition'', YDict [(''repo'',
                 YDict [(''path'', YStr ''org/repo''), (''branch'', YStr ''master''),
                        (''hostname'', YStr ''github.com'')])])]]"
  using preprocessor_renames_and_injects [of unprocessed_descriptor
      "[YDict [(''variants'', YDict [(''v2'', YDict [])])]]"]
  by (simp add: unprocessed_descriptor_def ambiguous_descriptor_def example_descriptor_def
      preprocessed_descriptor_def)

text \<open>
  Claim C9 as stated fails: the error descriptor that the repository enumerator yields
  for an unparsable definitions file holds the empty tuple as \<open>override_definitions\<close>,
  and the preprocessor raises \<open>AttributeError\<close> where it appends to it, returning no
  descriptor. The replicator hands a descriptor with a discovery exception to no
  preprocessor.
\<close>

theorem preprocessor_raises_on_error_descriptor_counterexample:
  "process_definition_descriptor
     (invalid_yaml_descriptor example_enumerator ''org/repo'' ''b1'' (External ''YAMLError''))
   = Inl AttributeError"
  by (simp add: process_definition_descriptor_def inject_main_repo_def
      add_branch_to_pipeline_name_def invalid_yaml_descriptor_def)

lemma bind_exn_simps [simp]:
  "bind_exn (Inl e) f = Inl e"
  "bind_exn (Inr x) f = f x"
  by (simp_all add: bind_exn_def)

lemma bind_exn_eq_Inr:
  "bind_exn m f = Inr y \<longleftrightarrow> (\<exists>x. m = Inr x \<and> f x = Inr y)"
  by (cases m) simp_all

text \<open>
  Claim C7. When the merged definition of a descriptor holds a non-empty \<open>jobs\<close> mapping
  and a non-empty \<open>variants\<close> mapping, \<open>render\<close> returns a result with status FAILED,
  never SUCCEEDED, carrying the formatted trace and the descriptor as it was given.
  \<open>render\<close> is a total function: no exception leaves it.
\<close>

theorem render_fails_on_jobs_and_variants:
  assumes "merge_layers M (pipeline_definition d) (py_items (override_definitions d))
           = Inr (YDict kvs)"
    and "map_of kvs ''jobs'' = Some (YDict js)" and "js \<noteq> []"
    and "map_of kvs ''variants'' = Some (YDict vs)" and "vs \<noteq> []"
  shows "rr_render_status (render M R d) = RenderFailed
       \<and> rr_render_status (render M R d) \<noteq> RenderSucceeded
       \<and> (\<exists>e. rr_error_details (render M R d) = Some (FormattedTrace e))
       \<and> rr_definition_descriptor (render M R d) = d"
proof -
  have "\<exists>e. u_render M R d = Inl e"
  proof (cases "template_name d")
    case (Inl e)
    then show ?thesis using assms by (simp add: u_render_def)
  next
    case (Inr tname)
    then show ?thesis using assms
      by (cases "template_contents R tname") (simp_all add: u_render_def)
  qed
  then show ?thesis by (auto simp: render_def)
qed

theorem render_fails_on_jobs_and_variants_witness:
  "rr_render_status (render example_merge example_renderer ambiguous_descriptor) = RenderFailed
   \<and> rr_definition_descriptor (render example_merge example_renderer ambiguous_descriptor)
       = ambiguous_descriptor"
proof -
  have m: "merge_layers example_merge (pipeline_definition ambiguous_descriptor)
             (py_items (override_definitions ambiguous_descriptor))
           = Inr (YDict [(''jobs'', YDict [(''v1'', YDict [])]),
                         (''variants'', YDict [(''v2'', YDict [])])])"
    by (simp add: example_merge_def ambiguous_descriptor_def example_descriptor_def)
  show ?thesis
    using render_fails_on_jobs_and_variants [OF m, of "[(''v1'', YDict [])]" "[(''v2'', YDict [])]"
        example_renderer]
    by simp
qed


lemma determine_pipeline_name_find:
  "determine_pipeline_name n vs =
     (case find has_main_repository vs of
        Some v \<Rightarrow> n @ ''-'' @ main_repository_branch v
      | None \<Rightarrow> n)"
  by (induction vs) simp_all

lemma u_render_Inr:
  assumes "u_render M R d = Inr d'"
  shows "\<exists>tname contents rd model rendered.
           template_name d = Inr tname \<and> template_contents R tname = Inr contents
         \<and> create_pipeline_definition R rd = Inr model \<and> rd_name rd = pipeline_name d
         \<and> mako_render R contents model
               \<lparr>md_definition = model, md_name = pipeline_name d,
                md_target_team = concourse_target_team d,
                md_pipeline_name = determine_pipeline_name (pipeline_name d) (variants model)\<rparr>
              = Inr rendered
         \<and> d' = d\<lparr>pipeline := Some rendered\<rparr>"
  using assms
  apply (simp add: u_render_def bind_exn_eq_Inr split: if_splits)
   apply (elim exE conjE)
   apply (rule exI, rule exI, rule conjI, assumption)
   apply auto[1]
  apply (elim exE conjE)
  apply (rule exI, rule exI, rule conjI, assumption)
  apply auto[1]
  done

text \<open>
  Claim C3, amended. When the render succeeds, the renderer attaches the rendered text to
  the descriptor as \<open>pipeline\<close> and leaves \<open>pipeline_name\<close> as it was. The final name,
  \<open><definition-name>-<branch>\<close> from the first variant that declares a main repository, or
  the bare definition name when no variant does, is handed to the template in the pipeline
  metadata under \<open>pipeline_name\<close>; it is not attached to the descriptor.
\<close>

theorem render_attaches_pipeline_only:
  assumes "rr_render_status (render M R d) = RenderSucceeded"
  shows "\<exists>tname contents rd model md rendered.
           template_name d = Inr tname \<and> template_contents R tname = Inr contents
         \<and> create_pipeline_definition R rd = Inr model \<and> rd_name rd = pipeline_name d
         \<and> mako_render R contents model md = Inr rendered
         \<and> md_name md = pipeline_name d
         \<and> md_pipeline_name md =
              (case find has_main_repository (variants model) of
                 Some v \<Rightarrow> pipeline_name d @ ''-'' @ main_repository_branch v
               | None \<Rightarrow> pipeline_name d)
         \<and> rr_definition_descriptor (render M R d) = d\<lparr>pipeline := Some rendered\<rparr>
         \<and> pipeline_name (rr_definition_descriptor (render M R d)) = pipeline_name d"
proof -
  from assms obtain d' where d': "u_render M R d = Inr d'"
    by (cases "u_render M R d") (simp_all add: render_def)
  from u_render_Inr [OF d'] obtain tname contents rd model rendered
    where t: "template_name d = Inr tname" "template_contents R tname = Inr contents"
      and c: "create_pipeline_definition R rd = Inr model" "rd_name rd = pipeline_name d"
      and m: "mako_render R contents model
               \<lparr>md_definition = model, md_name = pipeline_name d,
                md_target_team = concourse_target_team d,
                md_pipeline_name = determine_pipeline_name (pipeline_name d) (variants model)\<rparr>
              = Inr rendered"
      and r: "d' = d\<lparr>pipeline := Some rendered\<rparr>"
    by blast
  have "rr_definition_descriptor (render M R d) = d\<lparr>pipeline := Some rendered\<rparr>"
    using d' r by (simp add: render_def)
  moreover have "pipeline_name (d\<lparr>pipeline := Some rendered\<rparr>) = pipeline_name d"
    by simp
  moreover note t c m
  ultimately show ?thesis
    unfolding determine_pipeline_name_find
    by (metis pipeline_metadata.select_convs(2,4))
qed

theorem render_attaches_pipeline_only_witness:
  "rr_render_status (render example_merge example_renderer example_descriptor) = RenderSucceeded
   \<and> rr_definition_descriptor (render example_merge example_renderer example_descriptor)
       = example_descriptor\<lparr>pipeline := Some ''template: p1-master-dev''\<rparr>"
proof -
  have s: "rr_render_status (render example_merge example_renderer example_descriptor)
           = RenderSucceeded"
    by (simp add: render_def u_render_def example_merge_def example_renderer_def
        example_descriptor_def template_name_def has_lookup_def)
  from render_attaches_pipeline_only [OF s]
  obtain tname contents rd model md rendered
    where a: "template_contents example_renderer tname = Inr contents"
      "create_pipeline_definition example_renderer rd = Inr model"
      "mako_render example_renderer contents model md = Inr rendered"
      "md_pipeline_name md =
         (case find has_main_repository (variants model) of
            Some v \<Rightarrow> pipeline_name example_descriptor @ ''-'' @ main_repository_branch v
          | None \<Rightarrow> pipeline_name example_descriptor)"
      and b: "rr_definition_descriptor (render example_merge example_renderer example_descriptor)
         = example_descriptor\<lparr>pipeline := Some rendered\<rparr>"
    by blast
  from a have "rendered = ''template: p1-master-dev''"
    by (auto simp: example_renderer_def example_variant_def example_descriptor_def)
  with s b show ?thesis by simp
qed

text \<open>
  Claim C3 as stated fails: after a successful render of a definition whose first variant
  has the main-repository branch \<open>dev\<close>, the final name is \<open>p1-master-dev\<close> while the
  descriptor still carries \<open>p1-master\<close>.
\<close>

theorem render_final_name_counterexample:
  "rr_render_status (render example_merge example_renderer example_descriptor) = RenderSucceeded
   \<and> determine_pipeline_name (pipeline_name example_descriptor) [example_variant]
       = ''p1-master-dev''
   \<and> pipeline_name (rr_definition_descriptor
        (render example_merge example_renderer example_descriptor)) = ''p1-master''"
  by (simp add: render_def u_render_def example_merge_def example_renderer_def
      example_descriptor_def template_name_def has_lookup_def example_variant_def)

section \<open>Properties of the branch configuration\<close>

lemma map_exn_Inr:
  assumes "\<forall>x\<in>set xs. f x = Inr (g x)"
  shows "map_exn f xs = Inr (map g xs)"
  using assms by (induction xs) simp_all

lemma entry_with_idx_plain:
  assumes "plainly_indexed e"
  shows "entry_with_idx L i e =
           Inr (case explicit_index e of Some n \<Rightarrow> n | None \<Rightarrow> int i, e)"
proof -
  from assms obtain kvs where r: "raw e = YDict kvs"
    by (cases "raw e") (simp_all add: plainly_indexed_def)
  show ?thesis
  proof (cases "map_of kvs ''index''")
    case None
    with r show ?thesis
      by (simp add: explicit_index_def entry_with_idx_def index_def)
  next
    case (Some v)
    with r assms show ?thesis
      by (cases v) (simp_all add: plainly_indexed_def explicit_index_def entry_with_idx_def index_def)
  qed
qed

lemma snd_enumerate_in_set: "x \<in> set (enumerate n xs) \<Longrightarrow> snd x \<in> set xs"
  by (induction xs arbitrary: n) auto


lemma indexed_entries_plain:
  assumes "\<forall>e\<in>set ms. plainly_indexed e"
  shows "map_exn (\<lambda>ie. entry_with_idx L (fst ie) (snd ie)) (enumerate 0 ms) = Inr (sort_keys ms)"
  unfolding sort_keys_def
proof (rule map_exn_Inr, rule ballI)
  fix x assume "x \<in> set (enumerate 0 ms)"
  then have "snd x \<in> set ms" by (rule snd_enumerate_in_set)
  with assms have "plainly_indexed (snd x)" by blast
  then show "entry_with_idx L (fst x) (snd x) =
      Inr (case explicit_index (snd x) of None \<Rightarrow> int (fst x) | Some n \<Rightarrow> n, snd x)"
    by (rule entry_with_idx_plain)
qed

lemma map_snd_sort_keys: "map snd (sort_keys ms) = ms"
  by (simp add: sort_keys_def comp_def)

lemma mset_merge_order: "mset (merge_order ms) = mset ms"
proof -
  have "mset (merge_order ms) = image_mset snd (mset (sort_key fst (sort_keys ms)))"
    by (simp add: merge_order_def)
  also have "\<dots> = mset (map snd (sort_keys ms))" by simp
  finally show ?thesis by (simp add: map_snd_sort_keys)
qed

lemma filter_merge_order:
  "filter P (merge_order ms) = map snd (sort_key fst (filter (\<lambda>ie. P (snd ie)) (sort_keys ms)))"
  by (simp add: merge_order_def filter_map comp_def filter_sort)

lemma map_snd_filter_sort_keys:
  "map snd (filter (\<lambda>ie. P (snd ie)) (sort_keys ms)) = filter P ms"
proof -
  have "map snd (filter (\<lambda>ie. P (snd ie)) (sort_keys ms)) = filter P (map snd (sort_keys ms))"
    by (simp add: filter_map comp_def)
  then show ?thesis by (simp only: map_snd_sort_keys)
qed

text \<open>Entries without an explicit index carry their positions as keys, which ascend.\<close>

lemma unindexed_keys_sorted:
  "sorted (map fst (filter (\<lambda>ie. explicit_index (snd ie) = None) (sort_keys ms)))"
proof -
  have "map fst (filter (\<lambda>ie. explicit_index (snd ie) = None) (sort_keys ms))
        = map (\<lambda>ie. int (fst ie)) (filter (\<lambda>ie. explicit_index (snd ie) = None) (enumerate 0 ms))"
    by (simp add: sort_keys_def filter_map comp_def cong: map_cong)
  moreover have "sorted (map fst (filter (\<lambda>ie. explicit_index (snd ie) = None) (enumerate 0 ms)))"
    by (rule sorted_filter) simp
  then have "sorted (map int (map fst (filter (\<lambda>ie. explicit_index (snd ie) = None) (enumerate 0 ms))))"
    by (simp add: sorted_map sorted_wrt_map del: map_map)
  ultimately show ?thesis by (simp add: comp_def)
qed

lemma unindexed_keep_order:
  "filter (\<lambda>e. explicit_index e = None) (merge_order ms) = filter (\<lambda>e. explicit_index e = None) ms"
proof -
  have "filter (\<lambda>e. explicit_index e = None) (merge_order ms)
        = map snd (filter (\<lambda>ie. explicit_index (snd ie) = None) (sort_keys ms))"
    by (simp only: filter_merge_order sort_key_id_if_sorted [OF unindexed_keys_sorted])
  also have "\<dots> = filter (\<lambda>e. explicit_index e = None) ms"
    by (rule map_snd_filter_sort_keys [of "\<lambda>e. explicit_index e = None"])
  finally show ?thesis .
qed

lemma equal_index_keys_sorted:
  "sorted (map fst (filter (\<lambda>ie. explicit_index (snd ie) = Some i) (sort_keys ms)))"
proof -
  have "map fst (filter (\<lambda>ie. explicit_index (snd ie) = Some i) (sort_keys ms))
        = map (\<lambda>ie. i) (filter (\<lambda>ie. explicit_index (snd ie) = Some i) (enumerate 0 ms))"
    by (simp add: sort_keys_def filter_map comp_def cong: map_cong)
  then show ?thesis by (simp add: sorted_wrt_map sorted_wrt_iff_nth_less)
qed

lemma equal_index_keep_order:
  "filter (\<lambda>e. explicit_index e = Some i) (merge_order ms) = filter (\<lambda>e. explicit_index e = Some i) ms"
proof -
  have "filter (\<lambda>e. explicit_index e = Some i) (merge_order ms)
        = map snd (filter (\<lambda>ie. explicit_index (snd ie) = Some i) (sort_keys ms))"
    by (simp only: filter_merge_order sort_key_id_if_sorted [OF equal_index_keys_sorted])
  also have "\<dots> = filter (\<lambda>e. explicit_index e = Some i) ms"
    by (rule map_snd_filter_sort_keys [of "\<lambda>e. explicit_index e = Some i"])
  finally show ?thesis .
qed

lemma indexed_ascending:
  "sorted (map (\<lambda>e. the (explicit_index e)) (filter (\<lambda>e. explicit_index e \<noteq> None) (merge_order ms)))"
proof -
  let ?P = "\<lambda>ie. explicit_index (snd ie) \<noteq> None"
  let ?xs = "sort_key fst (filter ?P (sort_keys ms))"
  have keys: "\<forall>ie\<in>set ?xs. the (explicit_index (snd ie)) = fst ie"
    by (auto simp: sort_keys_def)
  have "map (\<lambda>e. the (explicit_index e)) (filter (\<lambda>e. explicit_index e \<noteq> None) (merge_order ms))
        = map (\<lambda>ie. the (explicit_index (snd ie))) ?xs"
    by (simp add: filter_merge_order comp_def)
  also have "\<dots> = map fst ?xs"
    using keys by (intro map_cong) auto
  finally show ?thesis by simp
qed


lemma filter_exn_Inr:
  "filter_exn p xs = Inr ys \<Longrightarrow> ys = filter (\<lambda>x. p x = Inr True) xs"
proof (induction xs arbitrary: ys)
  case Nil
  then show ?case by simp
next
  case (Cons x xs)
  then show ?case
    by (cases "p x"; cases "filter_exn p xs") (auto split: if_splits)
qed

lemma matching_entries_filter:
  assumes "matching_entries L cfg b = Inr ms" and "cfg_entries cfg = Inr entries"
  shows "ms = filter (\<lambda>e. branch_matches L e b = Inr True) entries"
  using assms by (simp add: matching_entries_def filter_exn_Inr)

text \<open>
  Claim C2, amended. \<open>cfg_entry_for_branch\<close> returns none when no entry matches the
  branch. Otherwise it returns the entry named \<open>merged\<close> whose raw value is the merge,
  starting from the empty mapping, of the raw values of all matching entries in ascending
  order of their sort keys; the key of an entry is its index when that is a non-zero
  integer and its position among the matching entries when it has none. The order is
  ascending but not strictly: entries with equal indices keep their encounter order, and
  so do the entries without index. (An entry with the index 0 is not covered.)
\<close>

theorem cfg_entry_for_branch_merge_order:
  assumes "matching_entries L cfg b = Inr ms" and "\<forall>e\<in>set ms. plainly_indexed e"
  shows "cfg_entry_for_branch L cfg b =
           (if ms = [] then Inr None
            else bind_exn (merge_layers (lib_merge_dicts L) (YDict []) (map raw (merge_order ms)))
                   (\<lambda>effective. Inr (Some \<lparr>entry_name = ''merged'', raw = effective\<rparr>)))
       \<and> (\<forall>entries. cfg_entries cfg = Inr entries \<longrightarrow>
             ms = filter (\<lambda>e. branch_matches L e b = Inr True) entries)
       \<and> mset (merge_order ms) = mset ms
       \<and> sorted (map fst (sort_key fst (sort_keys ms)))
       \<and> sorted (map (\<lambda>e. the (explicit_index e))
            (filter (\<lambda>e. explicit_index e \<noteq> None) (merge_order ms)))
       \<and> (\<forall>i. filter (\<lambda>e. explicit_index e = Some i) (merge_order ms)
               = filter (\<lambda>e. explicit_index e = Some i) ms)
       \<and> filter (\<lambda>e. explicit_index e = None) (merge_order ms)
           = filter (\<lambda>e. explicit_index e = None) ms"
proof -
  have "cfg_entry_for_branch L cfg b =
           (if ms = [] then Inr None
            else bind_exn (merge_layers (lib_merge_dicts L) (YDict []) (map raw (merge_order ms)))
                   (\<lambda>effective. Inr (Some \<lparr>entry_name = ''merged'', raw = effective\<rparr>)))"
    using assms(1) indexed_entries_plain [OF assms(2), of L]
    by (simp add: cfg_entry_for_branch_def merge_order_def comp_def)
  moreover have "\<forall>entries. cfg_entries cfg = Inr entries \<longrightarrow>
             ms = filter (\<lambda>e. branch_matches L e b = Inr True) entries"
    using matching_entries_filter [OF assms(1)] by blast
  moreover have "sorted (map fst (sort_key fst (sort_keys ms)))" by simp
  moreover note mset_merge_order [of ms] indexed_ascending [of ms] unindexed_keep_order [of ms]
  moreover have "\<forall>i. filter (\<lambda>e. explicit_index e = Some i) (merge_order ms)
               = filter (\<lambda>e. explicit_index e = Some i) ms"
    using equal_index_keep_order by blast
  ultimately show ?thesis by blast
qed

lemma example_matching:
  "matching_entries example_library example_branch_cfg ''master''
     = Inr [entry_d, entry_c, entry_a]"
  by (simp add: matching_entries_def cfg_entries_def example_branch_cfg_def branch_matches_def
      branches_def entry_a_def entry_c_def entry_d_def example_library_def)

theorem cfg_entry_for_branch_merge_order_witness:
  "merge_order [entry_d, entry_c, entry_a] = [entry_c, entry_a, entry_d]
   \<and> cfg_entry_for_branch example_library example_branch_cfg ''master'' =
       Inr (Some \<lparr>entry_name = ''merged'',
         raw = YDict [(''branches'', YList [YStr ''master'']),
                      (''inherit'', YDict [(''p1'', YDict [(''template'', YStr ''a'')])]),
                      (''index'', YInt 5)]\<rparr>)"
proof -
  have p: "\<forall>e\<in>set [entry_d, entry_c, entry_a]. plainly_indexed e"
    by (simp add: plainly_indexed_def entry_a_def entry_c_def entry_d_def)
  have o: "merge_order [entry_d, entry_c, entry_a] = [entry_c, entry_a, entry_d]"
    by (simp add: merge_order_def sort_keys_def explicit_index_def entry_a_def entry_c_def
        entry_d_def enumerate_eq_zip upt_rec)
  have "cfg_entry_for_branch example_library example_branch_cfg ''master'' =
          bind_exn (merge_layers (lib_merge_dicts example_library) (YDict [])
                      (map raw (merge_order [entry_d, entry_c, entry_a])))
            (\<lambda>effective. Inr (Some \<lparr>entry_name = ''merged'', raw = effective\<rparr>))"
    using cfg_entry_for_branch_merge_order [OF example_matching p] by simp
  then show ?thesis
    unfolding o
    by (simp add: o example_library_def example_merge_def entry_a_def entry_c_def entry_d_def)
qed

text \<open>
  Claim C2 as stated fails: two matching entries with the same index 1 are merged in
  encounter order, and no arrangement of them has strictly ascending indices.
\<close>

theorem cfg_entry_for_branch_strict_order_counterexample:
  "matching_entries example_library tie_branch_cfg ''master'' = Inr [entry_a, entry_b]
   \<and> cfg_entry_for_branch example_library tie_branch_cfg ''master'' =
       Inr (Some \<lparr>entry_name = ''merged'',
         raw = YDict [(''branches'', YList [YStr ''master'']), (''index'', YInt 1),
                      (''inherit'', YDict [(''p1'', YDict [(''template'', YStr ''b'')])])]\<rparr>)
   \<and> \<not> strictly_ascending_order [entry_a, entry_b] [entry_a, entry_b]
   \<and> \<not> strictly_ascending_order [entry_a, entry_b] [entry_b, entry_a]"
  by (simp add: matching_entries_def cfg_entries_def tie_branch_cfg_def branch_matches_def
      branches_def entry_a_def entry_b_def example_library_def cfg_entry_for_branch_def
      entry_with_idx_def index_def enumerate_eq_zip upt_rec example_merge_def
      strictly_ascending_order_def explicit_index_def)

section \<open>Properties of the repository enumerator\<close>

lemma scan_branches_after_continues:
  assumes "\<forall>p\<in>set pre. \<exists>ds. scan_branch L self repo org (fst p) (snd p) = Continue ds"
  shows "scan_branches L self repo org (pre @ rest) after =
           (concat (map (\<lambda>p. yielded (scan_branch L self repo org (fst p) (snd p))) pre)
              @ fst (scan_branches L self repo org rest after),
            snd (scan_branches L self repo org rest after))"
  using assms
proof (induction pre)
  case Nil
  then show ?case by simp
next
  case (Cons p pre)
  obtain b c where p: "p = (b, c)" by (cases p)
  from Cons.prems obtain ds where ds: "scan_branch L self repo org b c = Continue ds"
    by (auto simp: p)
  from Cons have "scan_branches L self repo org (pre @ rest) after =
           (concat (map (\<lambda>p. yielded (scan_branch L self repo org (fst p) (snd p))) pre)
              @ fst (scan_branches L self repo org rest after),
            snd (scan_branches L self repo org rest after))"
    by simp
  then show ?case by (simp add: p ds)
qed

lemma scan_branch_unparsable:
  assumes "file_contents repo ''.ci/pipeline_definitions'' b = Inr content"
    and "(case cfg_entry of None \<Rightarrow> Inr (YDict [])
          | Some entry \<Rightarrow> override_definitions_of entry) = Inr overrides"
    and "lib_yaml_load L content = Inl e"
  shows "scan_branch L self repo org b cfg_entry =
           Return [invalid_yaml_descriptor self (org @ ''/'' @ repo_name repo) b e]"
  using assms by (simp add: scan_branch_def)

text \<open>
  Claim C1, amended. When the definitions file on a branch exists but does not parse, and
  the scan has run through all earlier branches, the enumerator yields exactly one error
  descriptor for that branch and returns: no later branch of the repository is scanned
  and no descriptor is yielded for one, whatever those branches hold.
\<close>

theorem scan_stops_at_unparsable_definitions:
  assumes "u_determine_repository_branches L repo = (pre @ (b, cfg_entry) # post, after)"
    and "\<forall>p\<in>set pre. \<exists>ds. scan_branch L self repo org (fst p) (snd p) = Continue ds"
    and "file_contents repo ''.ci/pipeline_definitions'' b = Inr content"
    and "(case cfg_entry of None \<Rightarrow> Inr (YDict [])
          | Some entry \<Rightarrow> override_definitions_of entry) = Inr overrides"
    and "lib_yaml_load L content = Inl e"
  shows "u_scan_repository_for_definitions L self repo org =
           (concat (map (\<lambda>p. yielded (scan_branch L self repo org (fst p) (snd p))) pre)
              @ [invalid_yaml_descriptor self (org @ ''/'' @ repo_name repo) b e],
            None)"
proof -
  have "scan_branches L self repo org ((b, cfg_entry) # post) after =
          ([invalid_yaml_descriptor self (org @ ''/'' @ repo_name repo) b e], None)"
    using scan_branch_unparsable [OF assms(3-5)] by simp
  then show ?thesis
    using scan_branches_after_continues [OF assms(2), of "(b, cfg_entry) # post" after] assms(1)
    by (simp add: u_scan_repository_for_definitions_def)
qed

lemma example_branches:
  "u_determine_repository_branches example_library example_repository =
     ([] @ (''b1'', Some all_entry) # [(''b2'', Some all_entry)], None)"
  by (simp add: u_determine_repository_branches_def u_branch_cfg_or_none_def
      example_repository_def example_library_def cfg_entry_for_branch_def matching_entries_def
      cfg_entries_def branch_matches_def branches_def entry_with_idx_def index_def
      enumerate_eq_zip upt_rec example_merge_def all_entry_def)

theorem scan_stops_at_unparsable_definitions_witness:
  "u_scan_repository_for_definitions example_library example_enumerator example_repository ''org''
     = ([invalid_yaml_descriptor example_enumerator ''org/repo'' ''b1'' (External ''YAMLError'')],
        None)"
proof -
  have pre: "\<forall>p\<in>set []. \<exists>ds. scan_branch example_library example_enumerator example_repository
               ''org'' (fst p) (snd p) = Continue ds"
    by simp
  have f: "file_contents example_repository ''.ci/pipeline_definitions'' ''b1'' = Inr ''p1: {''"
    by (simp add: example_repository_def)
  have ov: "(case Some all_entry of None \<Rightarrow> Inr (YDict [])
             | Some entry \<Rightarrow> override_definitions_of entry) = Inr (YDict [])"
    by (simp add: override_definitions_of_def all_entry_def)
  have bad: "lib_yaml_load example_library ''p1: {'' = Inl (External ''YAMLError'')"
    by (simp add: example_library_def)
  show ?thesis
    using scan_stops_at_unparsable_definitions [OF example_branches pre f ov bad]
    by (simp add: example_repository_def)
qed

text \<open>
  Claim C1 as stated fails: with an unparsable file on \<open>b1\<close> and a file on \<open>b2\<close> that
  declares \<open>p1\<close> (the loop body run on \<open>b2\<close> would yield it), the scan of the
  repository yields the error descriptor of \<open>b1\<close> and nothing else.
\<close>

theorem scan_continues_after_unparsable_counterexample:
  "u_determine_repository_branches example_library example_repository =
     ([(''b1'', Some all_entry), (''b2'', Some all_entry)], None)
   \<and> scan_branch example_library example_enumerator example_repository ''org'' ''b2''
       (Some all_entry) =
       Continue [\<lparr>pipeline_name = ''p1'', pipeline_definition = YDict [],
                  main_repo = \<lparr>path = ''org/repo'', branch = ''b2'', hostname = ''github.com''\<rparr>,
                  concourse_target_cfg = example_cfg, concourse_target_team = ''team'',
                  override_definitions = PyList [YDict []], exception = None, pipeline = None\<rparr>]
   \<and> u_scan_repository_for_definitions example_library example_enumerator example_repository
       ''org'' =
       ([invalid_yaml_descriptor example_enumerator ''org/repo'' ''b1'' (External ''YAMLError'')],
        None)"
proof -
  have b: "u_determine_repository_branches example_library example_repository =
     ([(''b1'', Some all_entry), (''b2'', Some all_entry)], None)"
    using example_branches by simp
  have s2: "scan_branch example_library example_enumerator example_repository ''org'' ''b2''
       (Some all_entry) =
       Continue [\<lparr>pipeline_name = ''p1'', pipeline_definition = YDict [],
                  main_repo = \<lparr>path = ''org/repo'', branch = ''b2'', hostname = ''github.com''\<rparr>,
                  concourse_target_cfg = example_cfg, concourse_target_team = ''team'',
                  override_definitions = PyList [YDict []], exception = None, pipeline = None\<rparr>]"
    by (simp add: scan_branch_def example_repository_def example_library_def
        override_definitions_of_def all_entry_def example_merge_def u_wrap_into_descriptors_def
        DefinitionDescriptor_def example_enumerator_def)
  have s1: "scan_branch example_library example_enumerator example_repository ''org'' ''b1''
       (Some all_entry) =
       Return [invalid_yaml_descriptor example_enumerator ''org/repo'' ''b1''
                 (External ''YAMLError'')]"
    by (simp add: scan_branch_def example_repository_def example_library_def
        override_definitions_of_def all_entry_def)
  show ?thesis
    using b s1 s2 by (simp add: u_scan_repository_for_definitions_def)
qed

section \<open>Properties of the deployer\<close>

text \<open>
  Claim C8. A deploy to the CI server of a rendered descriptor always returns a result
  for the descriptor, and the result is fixed by what the server answers. The calls are
  \<open>from_cfg\<close>, \<open>set_pipeline\<close> with the name and the rendered text of the descriptor, then
  \<open>unpause_pipeline\<close> and \<open>expose_pipeline\<close> when so configured, each answered by the
  server in the state the earlier calls have left. When none of them raises, the status
  is SUCCEEDED|CREATED, with both bits set, if \<open>set_pipeline\<close> reports CREATED, and
  exactly SUCCEEDED, without the CREATED bit, if it reports UPDATED; there is no error
  detail. Any other report raises \<open>NotImplementedError\<close> inside the \<open>try\<close>, after the
  pipeline was unpaused and exposed. When a call raises, it is the last call, the status
  is FAILED, without the SUCCEEDED bit, and the error detail is the formatted trace of
  that exception.
\<close>

theorem deploy_status_of_set_pipeline:
  assumes "pipeline d = Some p"
    and "t = concourse_target d" and "n = pipeline_name d"
    and "unpaused = (if unpause_pipelines self then [(UnpausePipeline t n, Returned)] else [])"
    and "exposed = (if expose_pipelines self then [(ExposePipeline t n, Returned)] else [])"
  shows
   "(command_raises E tr (FromCfg t) = Some e \<longrightarrow>
       deploy E self d tr =
         (Inr \<lparr>dr_definition_descriptor = d, deploy_status = FAILED,
               dr_error_details = Some (FormattedTrace e)\<rparr>,
          [(FromCfg t, Raised e)]))
  \<and> (command_raises E tr (FromCfg t) = None
       \<and> set_pipeline_returns E (tr @ [(FromCfg t, Returned)]) t n p = Inl e \<longrightarrow>
       deploy E self d tr =
         (Inr \<lparr>dr_definition_descriptor = d, deploy_status = FAILED,
               dr_error_details = Some (FormattedTrace e)\<rparr>,
          [(FromCfg t, Returned), (SetPipeline t n p, Raised e)]))
  \<and> (command_raises E tr (FromCfg t) = None
       \<and> set_pipeline_returns E (tr @ [(FromCfg t, Returned)]) t n p = Inr r \<longrightarrow>
       (unpause_pipelines self
          \<and> command_raises E
               (tr @ [(FromCfg t, Returned), (SetPipeline t n p, ReturnedResult r)])
               (UnpausePipeline t n) = Some e \<longrightarrow>
        deploy E self d tr =
          (Inr \<lparr>dr_definition_descriptor = d, deploy_status = FAILED,
                dr_error_details = Some (FormattedTrace e)\<rparr>,
           [(FromCfg t, Returned), (SetPipeline t n p, ReturnedResult r),
            (UnpausePipeline t n, Raised e)]))
     \<and> ((unpause_pipelines self \<longrightarrow>
            command_raises E
              (tr @ [(FromCfg t, Returned), (SetPipeline t n p, ReturnedResult r)])
              (UnpausePipeline t n) = None) \<longrightarrow>
        (expose_pipelines self
           \<and> command_raises E
                (tr @ [(FromCfg t, Returned), (SetPipeline t n p, ReturnedResult r)] @ unpaused)
                (ExposePipeline t n) = Some e \<longrightarrow>
         deploy E self d tr =
           (Inr \<lparr>dr_definition_descriptor = d, deploy_status = FAILED,
                 dr_error_details = Some (FormattedTrace e)\<rparr>,
            [(FromCfg t, Returned), (SetPipeline t n p, ReturnedResult r)] @ unpaused
              @ [(ExposePipeline t n, Raised e)]))
      \<and> ((expose_pipelines self \<longrightarrow>
             command_raises E
               (tr @ [(FromCfg t, Returned), (SetPipeline t n p, ReturnedResult r)] @ unpaused)
               (ExposePipeline t n) = None) \<longrightarrow>
         deploy E self d tr =
           (Inr \<lparr>dr_definition_descriptor = d,
                 deploy_status =
                   (case r of
                      SetPipelineCREATED \<Rightarrow> SUCCEEDED OR CREATED
                    | SetPipelineUPDATED \<Rightarrow> SUCCEEDED
                    | SetPipelineOther \<Rightarrow> FAILED),
                 dr_error_details =
                   (case r of
                      SetPipelineCREATED \<Rightarrow> None
                    | SetPipelineUPDATED \<Rightarrow> None
                    | SetPipelineOther \<Rightarrow> Some (FormattedTrace NotImplementedError))\<rparr>,
            [(FromCfg t, Returned), (SetPipeline t n p, ReturnedResult r)] @ unpaused
              @ exposed))))
  \<and> (SUCCEEDED OR CREATED) AND SUCCEEDED \<noteq> 0 \<and> (SUCCEEDED OR CREATED) AND CREATED \<noteq> 0
  \<and> SUCCEEDED AND CREATED = 0 \<and> FAILED AND SUCCEEDED = 0
  \<and> (\<exists>res evs. deploy E self d tr = (Inr res, evs) \<and> dr_definition_descriptor res = d)"
proof -
  have bits: "(SUCCEEDED OR CREATED) AND SUCCEEDED \<noteq> 0 \<and> (SUCCEEDED OR CREATED) AND CREATED \<noteq> 0
      \<and> SUCCEEDED AND CREATED = 0 \<and> FAILED AND SUCCEEDED = 0"
    by (simp add: SUCCEEDED_def CREATED_def FAILED_def)
  have total: "\<exists>res evs. deploy E self d tr = (Inr res, evs) \<and> dr_definition_descriptor res = d"
    using assms(1)
    by (cases "deploy_attempt E self d p tr") (auto simp: deploy_def split: sum.splits)
  have calls: "?thesis" if "unpause_pipelines self = u" "expose_pipelines self = x" for u x
    using assms that bits total
    by (cases u; cases x; cases r)
       (simp_all add: deploy_def deploy_attempt_def bind_io_def command_def set_pipeline_def
          return_io_def raise_io_def)
  show ?thesis by (rule calls) simp_all
qed

theorem deploy_status_of_set_pipeline_witness:
  "deploy example_environment example_deployer rendered_descriptor [] =
     (Inr \<lparr>dr_definition_descriptor = rendered_descriptor, deploy_status = 9,
           dr_error_details = None\<rparr>,
      [(FromCfg (example_cfg, ''team''), Returned),
       (SetPipeline (example_cfg, ''team'') ''p1-master'' ''jobs: []'',
          ReturnedResult SetPipelineCREATED),
       (UnpausePipeline (example_cfg, ''team'') ''p1-master'', Returned),
       (ExposePipeline (example_cfg, ''team'') ''p1-master'', Returned)])
   \<and> deploy updating_environment example_deployer rendered_descriptor [] =
     (Inr \<lparr>dr_definition_descriptor = rendered_descriptor, deploy_status = 1,
           dr_error_details = None\<rparr>,
      [(FromCfg (example_cfg, ''team''), Returned),
       (SetPipeline (example_cfg, ''team'') ''p1-master'' ''jobs: []'',
          ReturnedResult SetPipelineUPDATED),
       (UnpausePipeline (example_cfg, ''team'') ''p1-master'', Returned),
       (ExposePipeline (example_cfg, ''team'') ''p1-master'', Returned)])
   \<and> deploy unreachable_environment example_deployer rendered_descriptor [] =
     (Inr \<lparr>dr_definition_descriptor = rendered_descriptor, deploy_status = 2,
           dr_error_details = Some (FormattedTrace (External ''ConnectionError''))\<rparr>,
      [(FromCfg (example_cfg, ''team''), Returned),
       (SetPipeline (example_cfg, ''team'') ''p1-master'' ''jobs: []'',
          Raised (External ''ConnectionError''))])"
proof -
  have p: "pipeline rendered_descriptor = Some ''jobs: []''"
    by (simp add: rendered_descriptor_def)
  have t: "(example_cfg, ''team'') = concourse_target rendered_descriptor"
    by (simp add: rendered_descriptor_def example_descriptor_def concourse_target_def)
  have n: "''p1-master'' = pipeline_name rendered_descriptor"
    by (simp add: rendered_descriptor_def example_descriptor_def)
  have u: "[(UnpausePipeline (example_cfg, ''team'') ''p1-master'', Returned)] =
      (if unpause_pipelines example_deployer
       then [(UnpausePipeline (example_cfg, ''team'') ''p1-master'', Returned)] else [])"
    by (simp add: example_deployer_def)
  have x: "[(ExposePipeline (example_cfg, ''team'') ''p1-master'', Returned)] =
      (if expose_pipelines example_deployer
       then [(ExposePipeline (example_cfg, ''team'') ''p1-master'', Returned)] else [])"
    by (simp add: example_deployer_def)
  show ?thesis
    using deploy_status_of_set_pipeline [OF p t n u x, of example_environment "[]"
        "External []" SetPipelineCREATED]
      deploy_status_of_set_pipeline [OF p t n u x, of updating_environment "[]"
        "External []" SetPipelineUPDATED]
      deploy_status_of_set_pipeline [OF p t n u x, of unreachable_environment "[]"
        "External ''ConnectionError''" SetPipelineOther]
    by (simp add: example_environment_def updating_environment_def unreachable_environment_def
        example_deployer_def SUCCEEDED_def CREATED_def FAILED_def)
qed

section \<open>Properties of the replicator\<close>

text \<open>
  Claim C6. A descriptor that carries a discovery exception gives a SKIPPED result with
  that exception as error detail; the result holds the descriptor as it came (the
  preprocessor has not touched it), it is the same for every renderer and deployer, and
  no call is made. A descriptor without exception whose render result is FAILED gives a
  SKIPPED result with the error detail of the render; it is the same for every deployer
  and no call is made. What is rendered is the preprocessed descriptor; an exception of
  the preprocessor leaves the replicator as it is, without any call.
\<close>

theorem orchestrator_skips:
  "(exception d = Some e \<longrightarrow>
      u_process_definition_descriptor M R D d tr =
        (Inr \<lparr>dr_definition_descriptor = d, deploy_status = SKIPPED,
              dr_error_details = Some (ExceptionObject e)\<rparr>, []))
   \<and> (exception d = None \<and> process_definition_descriptor d = Inr preprocessed
        \<and> rr_render_status (render M R preprocessed) = RenderFailed \<longrightarrow>
      u_process_definition_descriptor M R D d tr =
        (Inr \<lparr>dr_definition_descriptor = preprocessed,
              deploy_status = SKIPPED,
              dr_error_details = rr_error_details (render M R preprocessed)\<rparr>,
         [])
      \<and> (\<exists>x. rr_error_details (render M R preprocessed) = Some (FormattedTrace x)))
   \<and> (exception d = None \<and> process_definition_descriptor d = Inl x \<longrightarrow>
      u_process_definition_descriptor M R D d tr = (Inl x, []))"
proof -
  have "rr_render_status (render M R preprocessed) = RenderFailed \<Longrightarrow>
        \<exists>x. rr_error_details (render M R preprocessed) = Some (FormattedTrace x)"
    by (cases "u_render M R preprocessed") (simp_all add: render_def)
  then show ?thesis
    by (auto simp: u_process_definition_descriptor_def Let_def)
qed

theorem orchestrator_skips_witness:
  "u_process_definition_descriptor example_merge example_renderer
      (deploy example_environment example_deployer)
      (invalid_yaml_descriptor example_enumerator ''org/repo'' ''b1'' (External ''YAMLError'')) []
    = (Inr \<lparr>dr_definition_descriptor =
               invalid_yaml_descriptor example_enumerator ''org/repo'' ''b1''
                 (External ''YAMLError''),
             deploy_status = 4,
             dr_error_details = Some (ExceptionObject (External ''YAMLError''))\<rparr>, [])
   \<and> u_process_definition_descriptor example_merge example_renderer
      (deploy example_environment example_deployer) unprocessed_descriptor []
    = (Inr \<lparr>dr_definition_descriptor = preprocessed_descriptor,
             deploy_status = 4,
             dr_error_details = Some (FormattedTrace (RuntimeError
               (both_defined_message ''p1-master'')))\<rparr>, [])"
proof -
  have x: "exception (invalid_yaml_descriptor example_enumerator ''org/repo'' ''b1''
             (External ''YAMLError'')) = Some (External ''YAMLError'')"
    by (simp add: invalid_yaml_descriptor_def)
  have n: "exception unprocessed_descriptor = None"
    by (simp add: unprocessed_descriptor_def ambiguous_descriptor_def example_descriptor_def)
  have p: "process_definition_descriptor unprocessed_descriptor = Inr preprocessed_descriptor"
    by (simp add: process_definition_descriptor_def inject_main_repo_def
        add_branch_to_pipeline_name_def unprocessed_descriptor_def ambiguous_descriptor_def
        example_descriptor_def preprocessed_descriptor_def main_repo_dict_def)
  have r: "render example_merge example_renderer preprocessed_descriptor
      = \<lparr>rr_definition_descriptor = preprocessed_descriptor,
         rr_render_status = RenderFailed,
         rr_error_details = Some (FormattedTrace (RuntimeError
               (both_defined_message ''p1-master'')))\<rparr>"
    by (simp add: render_def u_render_def preprocessed_descriptor_def example_merge_def
        example_renderer_def template_name_def)
  show ?thesis
    using orchestrator_skips [of "invalid_yaml_descriptor example_enumerator ''org/repo'' ''b1''
             (External ''YAMLError'')" "External ''YAMLError''" example_merge example_renderer
             "deploy example_environment example_deployer" "[]"]
      orchestrator_skips [of unprocessed_descriptor "External []" example_merge example_renderer
             "deploy example_environment example_deployer" "[]" preprocessed_descriptor
             AttributeError]
      x n p r
    by (simp add: SKIPPED_def)
qed

section \<open>Properties of the result processor\<close>

subsection \<open>An example run\<close>

lemma example_buckets:
  "results_by_target [result_A, result_B] = [(''concourse:team'', [result_A, result_B])]"
  by (simp add: results_by_target_def result_A_def result_B_def concourse_target_key_def
      rendered_descriptor_def example_descriptor_def example_cfg_def)

lemma example_reconcile:
  "reconcile_target example_environment [result_A, result_B] [] = (Inr (), example_sweep)"
  by (simp add: reconcile_target_def bind_io_def command_def pipelines_def
      pipeline_resources_def return_io_def example_environment_def result_target_def
      result_name_def pipelines_to_remove_def u_initialise_new_pipeline_resources_def
      result_A_def result_B_def concourse_target_def rendered_descriptor_def
      example_descriptor_def example_sweep_def CREATED_def)

lemma example_swept:
  "foreach_io (\<lambda>bucket. reconcile_target example_environment (snd bucket))
     (results_by_target [result_A, result_B]) [] = (Inr (), example_sweep)"
  by (simp add: example_buckets bind_io_def return_io_def example_reconcile)

lemma example_swept_skipped:
  "foreach_io (\<lambda>bucket. reconcile_target example_environment (snd bucket))
     (results_by_target [result_A, result_S]) [] = (Inr (), example_sweep)"
proof -
  have "results_by_target [result_A, result_S] = [(''concourse:team'', [result_A, result_S])]"
    by (simp add: results_by_target_def result_A_def result_S_def concourse_target_key_def
        rendered_descriptor_def example_descriptor_def example_cfg_def)
  moreover have "reconcile_target example_environment [result_A, result_S] []
      = (Inr (), example_sweep)"
    by (simp add: reconcile_target_def bind_io_def command_def pipelines_def
        pipeline_resources_def return_io_def example_environment_def result_target_def
        result_name_def pipelines_to_remove_def u_initialise_new_pipeline_resources_def
        result_A_def result_S_def concourse_target_def rendered_descriptor_def
        example_descriptor_def example_sweep_def CREATED_def)
  ultimately show ?thesis by (simp add: bind_io_def return_io_def)
qed

lemma example_swept_told:
  "foreach_io (\<lambda>bucket. reconcile_target example_environment (snd bucket))
     (results_by_target [result_A, result_C]) [] = (Inr (), example_sweep_C)"
proof -
  have "results_by_target [result_A, result_C] = [(''concourse:team'', [result_A, result_C])]"
    by (simp add: results_by_target_def result_A_def result_C_def concourse_target_key_def
        rendered_descriptor_def example_descriptor_def example_cfg_def)
  moreover have "reconcile_target example_environment [result_A, result_C] []
      = (Inr (), example_sweep_C)"
    by (simp add: reconcile_target_def bind_io_def command_def pipelines_def
        pipeline_resources_def return_io_def example_environment_def result_target_def
        result_name_def pipelines_to_remove_def u_initialise_new_pipeline_resources_def
        result_A_def result_C_def concourse_target_def rendered_descriptor_def
        example_descriptor_def example_sweep_C_def CREATED_def)
  ultimately show ?thesis by (simp add: bind_io_def return_io_def)
qed

lemma example_failed: "failed_descriptors [result_A, result_B] = [result_B]"
  by (simp add: failed_descriptors_def result_A_def result_B_def SUCCEEDED_def)

lemma example_run:
  "process_results example_environment [result_A, result_B] [] =
     (Inr False,
      example_sweep @ [(NotifyBrokenDefinitionOwners result_B, Raised (External ''SMTPError''))])"
  by (simp add: process_results_def bind_io_def example_swept example_failed command_def)
     (simp add: example_environment_def result_B_def return_io_def)

subsection \<open>The return value\<close>

lemma notify_all_result:
  "\<exists>b mails. notify_all E fs flag tr = (Inr b, mails)
     \<and> map fst mails = map NotifyBrokenDefinitionOwners fs
     \<and> (\<forall>i<length mails.
           snd (mails ! i) =
             (case command_raises E (tr @ take i mails) (fst (mails ! i)) of
                None \<Rightarrow> Returned
              | Some e \<Rightarrow> Raised e))
     \<and> (b \<longleftrightarrow> flag \<and> (\<forall>ev\<in>set mails. snd ev = Returned))"
proof (induction fs arbitrary: flag tr)
  case Nil
  then show ?case by (simp add: return_io_def)
next
  case (Cons f fs)
  define out where
    "out = (case command_raises E tr (NotifyBrokenDefinitionOwners f) of
              None \<Rightarrow> Returned | Some e \<Rightarrow> Raised e)"
  define flag' where "flag' = (flag \<and> command_raises E tr (NotifyBrokenDefinitionOwners f) = None)"
  from Cons [of flag' "tr @ [(NotifyBrokenDefinitionOwners f, out)]"]
  obtain b mails where
    n: "notify_all E fs flag' (tr @ [(NotifyBrokenDefinitionOwners f, out)]) = (Inr b, mails)"
    and m: "map fst mails = map NotifyBrokenDefinitionOwners fs"
    and o: "\<forall>i<length mails.
           snd (mails ! i) =
             (case command_raises E ((tr @ [(NotifyBrokenDefinitionOwners f, out)]) @ take i mails)
                     (fst (mails ! i)) of
                None \<Rightarrow> Returned
              | Some e \<Rightarrow> Raised e)"
    and b: "b \<longleftrightarrow> flag' \<and> (\<forall>ev\<in>set mails. snd ev = Returned)"
    by blast
  have r: "notify_all E (f # fs) flag tr = (Inr b, (NotifyBrokenDefinitionOwners f, out) # mails)"
    using n
    by (cases "command_raises E tr (NotifyBrokenDefinitionOwners f)")
       (simp_all add: command_def out_def flag'_def)
  have o': "snd (((NotifyBrokenDefinitionOwners f, out) # mails) ! i) =
             (case command_raises E (tr @ take i ((NotifyBrokenDefinitionOwners f, out) # mails))
                     (fst (((NotifyBrokenDefinitionOwners f, out) # mails) ! i)) of
                None \<Rightarrow> Returned
              | Some e \<Rightarrow> Raised e)"
    if "i < length ((NotifyBrokenDefinitionOwners f, out) # mails)" for i
  proof (cases i)
    case 0
    then show ?thesis by (simp add: out_def)
  next
    case (Suc k)
    with that have "k < length mails" by simp
    with o Suc show ?thesis by simp
  qed
  have b': "b \<longleftrightarrow> flag
      \<and> (\<forall>ev\<in>set ((NotifyBrokenDefinitionOwners f, out) # mails). snd ev = Returned)"
    using b
    by (cases "command_raises E tr (NotifyBrokenDefinitionOwners f)")
       (auto simp: out_def flag'_def)
  from r m o' b' show ?case by auto
qed

lemma no_failed_descriptors:
  "failed_descriptors results = [] \<longleftrightarrow> (\<forall>r\<in>set results. deploy_status r AND SUCCEEDED \<noteq> 0)"
  by (auto simp: failed_descriptors_def filter_empty_conv)

text \<open>
  Claim C4. Once the sweep over the targets has completed, \<open>process_results\<close> returns a
  value, having attempted one notification for every result whose status lacks the
  SUCCEEDED bit (the bit of value 1: FAILED and SKIPPED results alike), in the order of
  the results, whether or not earlier notifications failed. Each attempt has the outcome
  that the mail system gives it after the calls before it. The value is true if and only
  if no result lacks the SUCCEEDED bit or every attempted notification succeeded: failed
  renders and deploys whose owners were told do not make it false.
\<close>

theorem process_results_return_value:
  assumes "foreach_io (\<lambda>bucket. reconcile_target E (snd bucket)) (results_by_target results) tr
             = (Inr (), swept)"
  shows "\<exists>b mails. process_results E results tr = (Inr b, swept @ mails)
       \<and> map fst mails =
           map NotifyBrokenDefinitionOwners (filter (\<lambda>r. deploy_status r AND 1 = 0) results)
       \<and> (\<forall>i<length mails.
             snd (mails ! i) =
               (case command_raises E (tr @ swept @ take i mails) (fst (mails ! i)) of
                  None \<Rightarrow> Returned
                | Some e \<Rightarrow> Raised e))
       \<and> (b \<longleftrightarrow> (\<forall>r\<in>set results. deploy_status r AND 1 \<noteq> 0)
                 \<or> (\<forall>ev\<in>set mails. snd ev = Returned))
       \<and> SUCCEEDED = 1"
proof (cases "failed_descriptors results = []")
  case True
  with assms have "process_results E results tr = (Inr True, swept @ [])"
    by (simp add: process_results_def bind_io_def return_io_def)
  moreover have "\<forall>r\<in>set results. deploy_status r AND 1 \<noteq> 0"
    using True no_failed_descriptors [of results] by (simp add: SUCCEEDED_def)
  moreover have "filter (\<lambda>r. deploy_status r AND 1 = 0) results = []"
    using True by (simp add: failed_descriptors_def SUCCEEDED_def)
  ultimately show ?thesis by (auto simp: SUCCEEDED_def)
next
  case False
  have f: "failed_descriptors results = filter (\<lambda>r. deploy_status r AND 1 = 0) results"
    by (simp add: failed_descriptors_def SUCCEEDED_def)
  from notify_all_result [of E "failed_descriptors results" True "tr @ swept"]
  obtain b mails where n: "notify_all E (failed_descriptors results) True (tr @ swept) = (Inr b, mails)"
    and m: "map fst mails = map NotifyBrokenDefinitionOwners (failed_descriptors results)"
    and o: "\<forall>i<length mails.
             snd (mails ! i) =
               (case command_raises E ((tr @ swept) @ take i mails) (fst (mails ! i)) of
                  None \<Rightarrow> Returned
                | Some e \<Rightarrow> Raised e)"
    and b: "b \<longleftrightarrow> (\<forall>ev\<in>set mails. snd ev = Returned)"
    by auto
  from assms False n have p: "process_results E results tr = (Inr b, swept @ mails)"
    by (simp add: process_results_def bind_io_def)
  have "\<not> (\<forall>r\<in>set results. deploy_status r AND 1 \<noteq> 0)"
    using False no_failed_descriptors [of results] by (simp add: SUCCEEDED_def)
  with b have b': "b \<longleftrightarrow> (\<forall>r\<in>set results. deploy_status r AND 1 \<noteq> 0)
                 \<or> (\<forall>ev\<in>set mails. snd ev = Returned)"
    by blast
  from o have o': "\<forall>i<length mails.
             snd (mails ! i) =
               (case command_raises E (tr @ swept @ take i mails) (fst (mails ! i)) of
                  None \<Rightarrow> Returned
                | Some e \<Rightarrow> Raised e)"
    by simp
  have s: "SUCCEEDED = 1" by (simp add: SUCCEEDED_def)
  from p m [unfolded f] o' b' s show ?thesis by blast
qed

theorem process_results_return_value_witness:
  "process_results example_environment [result_A, result_S] [] =
     (Inr False,
      example_sweep @ [(NotifyBrokenDefinitionOwners result_S, Raised (External ''SMTPError''))])
   \<and> process_results example_environment [result_A, result_C] [] =
     (Inr True, example_sweep_C @ [(NotifyBrokenDefinitionOwners result_C, Returned)])"
proof -
  have s: "filter (\<lambda>r. deploy_status r AND 1 = 0) [result_A, result_S] = [result_S]"
    by (simp add: result_A_def result_S_def)
  from process_results_return_value [OF example_swept_skipped]
  obtain b mails
    where p: "process_results example_environment [result_A, result_S] []
                = (Inr b, example_sweep @ mails)"
      and m: "map fst mails = map NotifyBrokenDefinitionOwners
                (filter (\<lambda>r. deploy_status r AND 1 = 0) [result_A, result_S])"
      and o: "\<forall>i<length mails.
             snd (mails ! i) =
               (case command_raises example_environment ([] @ example_sweep @ take i mails)
                       (fst (mails ! i)) of
                  None \<Rightarrow> Returned
                | Some e \<Rightarrow> Raised e)"
      and b: "b \<longleftrightarrow> (\<forall>r\<in>set [result_A, result_S]. deploy_status r AND 1 \<noteq> 0)
                \<or> (\<forall>ev\<in>set mails. snd ev = Returned)"
    by blast
  from m s obtain ev where ev: "mails = [ev]" "fst ev = NotifyBrokenDefinitionOwners result_S"
    by (auto simp: map_eq_Cons_conv)
  from o ev have "snd ev = Raised (External ''SMTPError'')"
    by (simp add: example_environment_def result_S_def)
  with ev have mails: "mails = [(NotifyBrokenDefinitionOwners result_S,
      Raised (External ''SMTPError''))]"
    by (cases ev) simp
  with b have "\<not> b" by (simp add: result_S_def)
  with p mails have skipped: "process_results example_environment [result_A, result_S] [] =
     (Inr False,
      example_sweep @ [(NotifyBrokenDefinitionOwners result_S, Raised (External ''SMTPError''))])"
    by simp
  have s': "filter (\<lambda>r. deploy_status r AND 1 = 0) [result_A, result_C] = [result_C]"
    by (simp add: result_A_def result_C_def)
  from process_results_return_value [OF example_swept_told]
  obtain b' mails'
    where p': "process_results example_environment [result_A, result_C] []
                = (Inr b', example_sweep_C @ mails')"
      and m': "map fst mails' = map NotifyBrokenDefinitionOwners
                (filter (\<lambda>r. deploy_status r AND 1 = 0) [result_A, result_C])"
      and o': "\<forall>i<length mails'.
             snd (mails' ! i) =
               (case command_raises example_environment ([] @ example_sweep_C @ take i mails')
                       (fst (mails' ! i)) of
                  None \<Rightarrow> Returned
                | Some e \<Rightarrow> Raised e)"
      and b': "b' \<longleftrightarrow> (\<forall>r\<in>set [result_A, result_C]. deploy_status r AND 1 \<noteq> 0)
                \<or> (\<forall>ev\<in>set mails'. snd ev = Returned)"
    by blast
  from m' s' obtain ev' where ev': "mails' = [ev']"
      "fst ev' = NotifyBrokenDefinitionOwners result_C"
    by (auto simp: map_eq_Cons_conv)
  from o' ev' have "snd ev' = Returned"
    by (simp add: example_environment_def result_C_def)
  with ev' have mails': "mails' = [(NotifyBrokenDefinitionOwners result_C, Returned)]"
    by (cases ev') simp
  with b' have "b'" by simp
  with p' mails' have "process_results example_environment [result_A, result_C] [] =
     (Inr True, example_sweep_C @ [(NotifyBrokenDefinitionOwners result_C, Returned)])"
    by simp
  with skipped show ?thesis by simp
qed

subsection \<open>Events of the combinators\<close>

lemma emits_return_io: "emits P (return_io x)"
  by (simp add: emits_def return_io_def)

lemma emits_raise_io: "emits P (raise_io e)"
  by (simp add: emits_def raise_io_def)

lemma emits_bind_io:
  assumes "emits P m" and "\<And>x. emits P (f x)"
  shows "emits P (bind_io m f)"
  unfolding emits_def
proof (intro allI ballI)
  fix tr ev assume ev: "ev \<in> set (snd (bind_io m f tr))"
  obtain r evs where m: "m tr = (r, evs)" by (cases "m tr")
  from assms(1) m have evs: "\<forall>ev\<in>set evs. P ev"
    by (auto simp: emits_def dest: spec [of _ tr])
  show "P ev"
  proof (cases r)
    case (Inl e)
    with m ev evs show ?thesis by (simp add: bind_io_def)
  next
    case (Inr x)
    obtain r' evs' where f: "f x (tr @ evs) = (r', evs')" by (cases "f x (tr @ evs)")
    from assms(2) [of x] f have "\<forall>ev\<in>set evs'. P ev"
      by (auto simp: emits_def dest: spec [of _ "tr @ evs"])
    with m Inr f ev evs show ?thesis by (auto simp: bind_io_def)
  qed
qed

lemma emits_foreach_io:
  assumes "\<And>x. x \<in> set xs \<Longrightarrow> emits P (f x)"
  shows "emits P (foreach_io f xs)"
  using assms
  by (induction xs) (simp_all add: emits_return_io emits_bind_io)

lemma emits_command:
  assumes "\<And>out. P (c, out)"
  shows "emits P (command E c)"
  using assms by (simp add: emits_def command_def split: option.splits)

lemma emits_pipelines:
  assumes "\<And>out. P (Pipelines t, out)"
  shows "emits P (pipelines E t)"
  using assms by (simp add: emits_def pipelines_def split: sum.splits)

lemma emits_pipeline_resources:
  assumes "\<And>out. P (PipelineResources t n, out)"
  shows "emits P (pipeline_resources E t n)"
  using assms by (simp add: emits_def pipeline_resources_def split: sum.splits)

lemma emits_notify_all:
  assumes "\<And>r out. P (NotifyBrokenDefinitionOwners r, out)"
  shows "emits P (notify_all E fs flag)"
  unfolding emits_def
proof (induction fs arbitrary: flag)
  case Nil
  then show ?case by (simp add: return_io_def)
next
  case (Cons f fs)
  show ?case
  proof (intro allI ballI)
    fix tr ev
    assume ev: "ev \<in> set (snd (notify_all E (f # fs) flag tr))"
    show "P ev"
    proof (cases "command_raises E tr (NotifyBrokenDefinitionOwners f)")
      case None
      with ev have "ev = (NotifyBrokenDefinitionOwners f, Returned)
          \<or> ev \<in> set (snd (notify_all E fs flag (tr @ [(NotifyBrokenDefinitionOwners f, Returned)])))"
        by (auto simp: command_def split: prod.splits)
      with Cons [of flag] assms show ?thesis by blast
    next
      case (Some e)
      with ev have "ev = (NotifyBrokenDefinitionOwners f, Raised e)
          \<or> ev \<in> set (snd (notify_all E fs False (tr @ [(NotifyBrokenDefinitionOwners f, Raised e)])))"
        by (auto simp: command_def split: prod.splits)
      with Cons [of False] assms show ?thesis by blast
    qed
  qed
qed

subsection \<open>Events of the sweep of one target\<close>

lemma emits_initialise:
  assumes "\<And>c out. call_target c = Some t \<Longrightarrow> (\<forall>n. c \<noteq> DeletePipeline t n) \<Longrightarrow> P (c, out)"
  shows "emits P (u_initialise_new_pipeline_resources E t results)"
  unfolding u_initialise_new_pipeline_resources_def
  by (intro emits_foreach_io emits_bind_io emits_command emits_pipeline_resources assms) simp_all

lemma emits_reconcile_target:
  assumes "\<And>c out. call_target c = Some (result_target (hd rs)) \<Longrightarrow>
             (\<forall>n. c = DeletePipeline (result_target (hd rs)) n \<longrightarrow> n \<notin> result_name ` set rs) \<Longrightarrow>
             P (c, out)"
  shows "emits P (reconcile_target E rs)"
proof (cases rs)
  case Nil
  then show ?thesis by (simp add: reconcile_target_def emits_raise_io)
next
  case (Cons first rest)
  show ?thesis
    unfolding reconcile_target_def Cons list.case
    apply (intro emits_bind_io emits_command emits_pipelines emits_foreach_io emits_initialise)
    using Cons assms by (auto simp: pipelines_to_remove_def)
qed


subsection \<open>The buckets\<close>

lemma map_of_add_result:
  "map_of (add_result B r) =
     (map_of B)(result_key r \<mapsto> (case map_of B (result_key r) of None \<Rightarrow> [r] | Some rs \<Rightarrow> rs @ [r]))"
  by (induction B r rule: add_result.induct) (auto simp: result_key_def)

lemma map_fst_add_result:
  "map fst (add_result B r) =
     (if result_key r \<in> set (map fst B) then map fst B else map fst B @ [result_key r])"
  by (induction B r rule: add_result.induct) (auto simp: result_key_def)

lemma distinct_add_result:
  "distinct (map fst B) \<Longrightarrow> distinct (map fst (add_result B r))"
  by (simp add: map_fst_add_result)

lemma results_by_target_snoc:
  "results_by_target (xs @ [x]) = add_result (results_by_target xs) x"
  by (simp add: results_by_target_def)

lemma distinct_results_by_target: "distinct (map fst (results_by_target xs))"
proof (induction xs rule: rev_induct)
  case Nil
  then show ?case by (simp add: results_by_target_def)
next
  case (snoc x xs)
  then show ?case by (simp only: results_by_target_snoc distinct_add_result)
qed

lemma map_of_results_by_target:
  "map_of (results_by_target xs) k =
     (if filter (\<lambda>r. result_key r = k) xs = [] then None
      else Some (filter (\<lambda>r. result_key r = k) xs))"
proof (induction xs rule: rev_induct)
  case Nil
  then show ?case by (simp add: results_by_target_def)
next
  case (snoc x xs)
  then show ?case
    by (auto simp: results_by_target_snoc map_of_add_result)
qed

lemma bucket_members:
  assumes "(k, rs) \<in> set (results_by_target xs)"
  shows "rs = filter (\<lambda>r. result_key r = k) xs \<and> rs \<noteq> []"
proof -
  from assms have "map_of (results_by_target xs) k = Some rs"
    by (simp add: distinct_results_by_target)
  then show ?thesis
    by (simp add: map_of_results_by_target split: if_splits)
qed

lemma result_key_of_target:
  "result_target r = result_target r' \<Longrightarrow> result_key r = result_key r'"
  by (simp add: result_target_def result_key_def concourse_target_def concourse_target_key_def)

lemma bucket_head:
  assumes "(k, rs) \<in> set (results_by_target xs)"
  shows "hd rs \<in> set rs \<and> result_key (hd rs) = k"
proof -
  from bucket_members [OF assms] have rs: "rs = filter (\<lambda>r. result_key r = k) xs" "rs \<noteq> []"
    by blast+
  from rs(2) have h: "hd rs \<in> set rs" by simp
  have "\<forall>r\<in>set rs. result_key r = k"
    by (subst rs(1)) simp
  with h show ?thesis by blast
qed

text \<open>
  Claim C10. The names that shield pipelines from removal are those of all results of
  the run, whatever their status. So for no result of the run, FAILED and SKIPPED ones
  included, does \<open>process_results\<close> ever call \<open>delete_pipeline\<close> at the result's target
  with the result's pipeline name, not even in a run that an exception cuts short.
\<close>

theorem failed_results_shield_their_pipelines:
  "\<forall>r\<in>set results. \<forall>out.
     (DeletePipeline (result_target r) (result_name r), out)
       \<notin> set (snd (process_results E results tr))"
proof -
  let ?P = "\<lambda>ev. \<forall>r\<in>set results.
              fst ev \<noteq> DeletePipeline (result_target r) (result_name r)"
  have sweep: "emits ?P (reconcile_target E (snd bucket))"
    if "bucket \<in> set (results_by_target results)" for bucket
  proof -
    obtain k rs where b: "bucket = (k, rs)" by (cases bucket)
    with that have mem: "(k, rs) \<in> set (results_by_target results)" by simp
    from bucket_members [OF mem] have rs: "rs = filter (\<lambda>r. result_key r = k) results" by simp
    from bucket_head [OF mem] have hd: "result_key (hd rs) = k" by simp
    have "emits ?P (reconcile_target E rs)"
    proof (rule emits_reconcile_target)
      fix c out
      assume t: "call_target c = Some (result_target (hd rs))"
        and n: "\<forall>n. c = DeletePipeline (result_target (hd rs)) n \<longrightarrow> n \<notin> result_name ` set rs"
      show "?P (c, out)"
      proof
        fix r assume r: "r \<in> set results"
        show "fst (c, out) \<noteq> DeletePipeline (result_target r) (result_name r)"
        proof
          assume "fst (c, out) = DeletePipeline (result_target r) (result_name r)"
          then have c: "c = DeletePipeline (result_target r) (result_name r)" by simp
          with t have same: "result_target r = result_target (hd rs)" by simp
          then have "result_key r = k" using hd result_key_of_target by blast
          with r rs have "r \<in> set rs" by simp
          moreover from c same n have "result_name r \<notin> result_name ` set rs" by simp
          ultimately show False by blast
        qed
      qed
    qed
    with b show ?thesis by simp
  qed
  have "emits ?P (process_results E results)"
    unfolding process_results_def
    by (intro emits_bind_io emits_foreach_io sweep) (simp_all add: emits_return_io emits_notify_all)
  then show ?thesis
    unfolding emits_def by force
qed

theorem failed_results_shield_their_pipelines_witness:
  "deploy_status result_B AND SUCCEEDED = 0
   \<and> (DeletePipeline (result_target result_B) ''B'', Returned)
        \<notin> set (snd (process_results example_environment [result_A, result_B] []))
   \<and> (DeletePipeline (result_target result_B) ''C'', Returned)
        \<in> set (snd (process_results example_environment [result_A, result_B] []))"
proof -
  have "(DeletePipeline (result_target result_B) (result_name result_B), Returned)
        \<notin> set (snd (process_results example_environment [result_A, result_B] []))"
    using failed_results_shield_their_pipelines [of "[result_A, result_B]" example_environment "[]"]
    by simp
  moreover have "result_name result_B = ''B''"
    by (simp add: result_name_def result_B_def)
  moreover have "(DeletePipeline (result_target result_B) ''C'', Returned)
        \<in> set (snd (process_results example_environment [result_A, result_B] []))"
    by (simp only: example_run snd_conv)
       (simp add: example_sweep_def result_target_def result_B_def
          concourse_target_def rendered_descriptor_def example_descriptor_def)
  moreover have "deploy_status result_B AND SUCCEEDED = 0"
    by (simp add: result_B_def SUCCEEDED_def)
  ultimately show ?thesis by simp
qed


subsection \<open>Completed computations\<close>















end
